theory Spec2Isabelle
  imports Complex_Main "HOL-Library.AList"
begin

section \<open>Data model\<close>

text \<open>
  The development embeds \<^verbatim>\<open>audio_separator/processor/services.py\<close>,
  \<^verbatim>\<open>models.py\<close>, \<^verbatim>\<open>forms.py\<close> and \<^verbatim>\<open>views.py\<close>.
  Job identifiers, status tags and step tags are Python strings and stay strings here.
  Timestamps are integers (seconds); \<^verbatim>\<open>timedelta(minutes=30)\<close> is 1800.
\<close>

text \<open>A status snapshot: the dict \<^verbatim>\<open>{'status', 'step', 'progress', 'message'}\<close>.\<close>

record snapshot =
  status :: string
  step :: string
  progress :: int
  message :: string

text \<open>
  \<^verbatim>\<open>models.ProcessingJob\<close>. The field \<open>job_status\<close> is the model's
  \<^verbatim>\<open>status\<close> column; nullable columns are options.
\<close>

record processing_job =
  original_filename :: string
  uploaded_file_path :: string
  job_status :: string
  current_step :: string
  progress_percentage :: int
  speaker_count :: "int option"
  output_directory :: "string option"
  error_message :: "string option"
  started_at :: "int option"
  completed_at :: "int option"

text \<open>\<^verbatim>\<open>models.SpeakerTrack\<close>; rows are keyed by (job, speaker\_id), which is
  \<^verbatim>\<open>unique_together\<close>. The duration is kept in milliseconds.\<close>

record speaker_track =
  speaker_label :: string
  audio_file_path :: string
  duration_ms :: nat
  word_count :: nat

text \<open>Decoded audio, one sample per millisecond (pydub measures and slices in
  milliseconds); silence is the sample 0.\<close>

type_synonym audio = "int list"

text \<open>
  The process state: the three module-level dicts, the two Django tables, the file system
  (each file by its decoded content), the clock read by \<^verbatim>\<open>timezone.now()\<close>, and the
  lines that \<^verbatim>\<open>update_job_status\<close> logs as \<^verbatim>\<open>UPDATING JOB STATUS\<close>, one per
  applied write. \<open>job_statuses\<close> is an association list in insertion order, as a
  Python dict is; the reaper iterates over it.
\<close>

record world =
  job_statuses :: "(string \<times> snapshot) list"
  job_cancellations :: "string \<rightharpoonup> bool"
  job_threads :: "string set"
  db_jobs :: "string \<rightharpoonup> processing_job"
  db_tracks :: "(string \<times> string) \<rightharpoonup> speaker_track"
  fs :: "string \<rightharpoonup> audio"
  clock :: int
  status_log :: "(string \<times> snapshot) list"

text \<open>Exceptions, with the text that \<^verbatim>\<open>str(e)\<close> gives.\<close>

datatype exn =
    DoesNotExist
  | Exception string
  | FileNotFoundError string
  | KeyError string
  | IndexError string
  | IntegrityError string
  | CouldntDecodeError string
  | EngineError string

fun str_exn :: "exn \<Rightarrow> string" where
  "str_exn DoesNotExist = ''ProcessingJob matching query does not exist.''"
| "str_exn (Exception m) = m"
| "str_exn (FileNotFoundError m) = m"
| "str_exn (KeyError k) = [CHR 0x27] @ k @ [CHR 0x27]"
| "str_exn (IndexError m) = m"
| "str_exn (IntegrityError m) = m"
| "str_exn (CouldntDecodeError m) = m"
| "str_exn (EngineError m) = m"

text \<open>The outcome of a call that may raise: the exception together with the state at
  the raise, or the returned value and the state.\<close>

datatype 'a res = Raise exn world | Return 'a world

section \<open>Status writes and cancellation\<close>

definition check_job_cancelled :: "world \<Rightarrow> string \<Rightarrow> bool" where
  "check_job_cancelled w job_id =
     (case job_cancellations w job_id of None \<Rightarrow> False | Some b \<Rightarrow> b)"

text \<open>What \<^verbatim>\<open>update_job_status\<close> assigns to the loaded row before it saves it;
  \<open>now\<close> is \<^verbatim>\<open>timezone.now()\<close>.\<close>

definition set_job_fields ::
  "processing_job \<Rightarrow> string \<Rightarrow> string \<Rightarrow> int \<Rightarrow> int \<Rightarrow> processing_job" where
  "set_job_fields job st stp prog now =
     (let job1 = job\<lparr>job_status := st, current_step := stp, progress_percentage := prog\<rparr>;
          job2 = (if st = ''failed'' \<and> stp = ''cancelled''
                  then job1\<lparr>error_message := Some ''Job cancelled by user''\<rparr>
                  else job1)
      in if st = ''processing'' \<and> started_at job2 = None
         then job2\<lparr>started_at := Some now\<rparr>
         else if st = ''completed'' \<or> st = ''failed''
         then job2\<lparr>completed_at := Some now\<rparr>
         else job2)"

text \<open>The \<^verbatim>\<open>try\<close> block of \<^verbatim>\<open>update_job_status\<close>: the cancellation gate, the
  write to the in-memory dict, then the load, update and save of the database row.\<close>

definition update_job_status_try ::
  "world \<Rightarrow> string \<Rightarrow> string \<Rightarrow> string \<Rightarrow> int \<Rightarrow> string \<Rightarrow> unit res" where
  "update_job_status_try w job_id st stp prog msg =
     (if check_job_cancelled w job_id \<and> st \<noteq> ''failed'' \<and> st \<noteq> ''cancelled'' then Return () w
      else
        let snap = \<lparr>status = st, step = stp, progress = prog, message = msg\<rparr>;
            w1 = w\<lparr>status_log := status_log w @ [(job_id, snap)],
                   job_statuses := AList.update job_id snap (job_statuses w)\<rparr>
        in case db_jobs w1 job_id of
             None \<Rightarrow> Raise DoesNotExist w1
           | Some job \<Rightarrow>
               Return ()
                 (w1\<lparr>db_jobs := (db_jobs w1)(job_id \<mapsto>
                        set_job_fields job st stp prog (clock w1))\<rparr>))"

text \<open>The whole function: the handler logs the exception and the function returns
  \<^verbatim>\<open>None\<close>, so no exception leaves the call and the model returns the state.\<close>

definition update_job_status ::
  "world \<Rightarrow> string \<Rightarrow> string \<Rightarrow> string \<Rightarrow> int \<Rightarrow> string \<Rightarrow> world" where
  "update_job_status w job_id st stp prog msg =
     (case update_job_status_try w job_id st stp prog msg of
        Raise e w' \<Rightarrow> w'
      | Return u w' \<Rightarrow> w')"

text \<open>\<^verbatim>\<open>cancel_job\<close>: nothing in its \<^verbatim>\<open>try\<close> block can raise, so it returns
  \<^verbatim>\<open>True\<close>.\<close>

definition cancel_job :: "world \<Rightarrow> string \<Rightarrow> bool \<times> world" where
  "cancel_job w job_id =
     (let w1 = w\<lparr>job_cancellations := (job_cancellations w)(job_id \<mapsto> True)\<rparr>;
          w2 = update_job_status w1 job_id ''failed'' ''cancelled'' 0 ''Job cancelled by user'';
          w3 = w2\<lparr>job_statuses := AList.delete job_id (job_statuses w2)\<rparr>;
          w4 = w3\<lparr>job_threads := job_threads w3 - {job_id}\<rparr>
      in (True, w4))"

section \<open>Status reads and the stale-job reaper\<close>

definition STEP_CHOICES :: "(string \<times> string) list" where
  "STEP_CHOICES =
     [(''uploaded'', ''File Uploaded''),
      (''converting'', ''Converting Audio Format''),
      (''transcribing'', ''Transcribing with WhisperX''),
      (''separating'', ''Separating Speakers''),
      (''finalizing'', ''Finalizing Output''),
      (''completed'', ''Processing Complete'')]"

text \<open>Django's \<^verbatim>\<open>get_FOO_display\<close>: the label of the choice, or the stored value
  itself when it is not among the choices.\<close>

definition get_current_step_display :: "processing_job \<Rightarrow> string" where
  "get_current_step_display job =
     (case map_of STEP_CHOICES (current_step job) of
        None \<Rightarrow> current_step job
      | Some label \<Rightarrow> label)"

text \<open>The dict that \<^verbatim>\<open>get_job_status\<close> builds from a database row.\<close>

definition db_status :: "processing_job \<Rightarrow> snapshot" where
  "db_status job =
     \<lparr>status = job_status job, step = current_step job,
      progress = progress_percentage job,
      message = ''Current step: '' @ get_current_step_display job\<rparr>"

text \<open>The first loop of \<^verbatim>\<open>clean_stale_cache_entries\<close>, over
  \<^verbatim>\<open>list(job_statuses.items())\<close>; it collects \<^verbatim>\<open>stale_jobs\<close>.\<close>

fun stale_scan :: "world \<Rightarrow> (string \<times> snapshot) list \<Rightarrow> string list \<Rightarrow> world \<times> string list" where
  "stale_scan w [] stale_jobs = (w, stale_jobs)"
| "stale_scan w ((job_id, st) # rest) stale_jobs =
     (case db_jobs w job_id of
        None \<Rightarrow> stale_scan w rest (stale_jobs @ [job_id])
      | Some job \<Rightarrow>
          if job_status job = ''processing'' \<and>
             (case started_at job of None \<Rightarrow> False | Some t \<Rightarrow> clock w - t > 1800)
          then stale_scan
                 (w\<lparr>db_jobs := (db_jobs w)(job_id \<mapsto>
                      job\<lparr>job_status := ''failed'', current_step := ''failed'',
                          progress_percentage := 0,
                          error_message := Some ''Processing timed out after 30 minutes'',
                          completed_at := Some (clock w)\<rparr>)\<rparr>)
                 rest (stale_jobs @ [job_id])
          else stale_scan w rest stale_jobs)"

definition clean_stale_cache_entries :: "world \<Rightarrow> world" where
  "clean_stale_cache_entries w =
     (case stale_scan w (job_statuses w) [] of
        (w1, stale_jobs) \<Rightarrow>
          w1\<lparr>job_statuses := fold AList.delete stale_jobs (job_statuses w1)\<rparr>)"

text \<open>\<^verbatim>\<open>get_job_status\<close>; \<open>clean\<close> is the outcome of the draw
  \<^verbatim>\<open>random.random() < 0.1\<close>.\<close>

definition get_job_status :: "world \<Rightarrow> string \<Rightarrow> bool \<Rightarrow> snapshot \<times> world" where
  "get_job_status w job_id clean =
     (let w1 = (if clean then clean_stale_cache_entries w else w)
      in case db_jobs w1 job_id of
           None \<Rightarrow>
             (\<lparr>status = ''not_found'', step = ''error'', progress = 0,
               message = ''Job not found''\<rparr>, w1)
         | Some job \<Rightarrow>
             if job_status job = ''completed'' \<or> job_status job = ''failed''
             then (db_status job,
                   w1\<lparr>job_statuses := AList.update job_id (db_status job) (job_statuses w1)\<rparr>)
             else (case map_of (job_statuses w1) job_id of
                     Some memory_status \<Rightarrow> (memory_status, w1)
                   | None \<Rightarrow>
                       (db_status job,
                        w1\<lparr>job_statuses :=
                             AList.update job_id (db_status job) (job_statuses w1)\<rparr>)))"

section \<open>Strings and paths\<close>

text \<open>\<^verbatim>\<open>str(n)\<close> for a non-negative integer.\<close>

definition digit_char :: "nat \<Rightarrow> char" where
  "digit_char d = ''0123456789'' ! d"

function str_nat :: "nat \<Rightarrow> string" where
  "str_nat n =
     (if n < 10 then [digit_char n]
      else str_nat (n div 10) @ [digit_char (n mod 10)])"
  by pat_completeness auto
termination
  by (relation "measure id") auto

declare str_nat.simps [simp del]

text \<open>A character is a code point below 256; strings with other code points are not
  covered. Python's whitespace among these, which \<^verbatim>\<open>str.strip\<close>,
  \<^verbatim>\<open>str.split\<close> and the regular expression class \<^verbatim>\<open>\s\<close> take: the
  code points 9 to 13 and 28 to 32, U+0085 and U+00A0.\<close>

definition is_space :: "char \<Rightarrow> bool" where
  "is_space c =
     (let n = (of_char c :: nat)
      in (9 \<le> n \<and> n \<le> 13) \<or> (28 \<le> n \<and> n \<le> 32) \<or> n = 133 \<or> n = 160)"

definition strip :: "string \<Rightarrow> string" where
  "strip s = rev (dropWhile is_space (rev (dropWhile is_space s)))"

fun split_ws :: "string \<Rightarrow> string \<Rightarrow> string list" where
  "split_ws cur [] = (if cur = [] then [] else [cur])"
| "split_ws cur (c # cs) =
     (if is_space c then (if cur = [] then split_ws [] cs else cur # split_ws [] cs)
      else split_ws (cur @ [c]) cs)"

text \<open>\<^verbatim>\<open>s.split()\<close>.\<close>

definition py_split :: "string \<Rightarrow> string list" where
  "py_split s = split_ws [] s"

text \<open>\<^verbatim>\<open>str.lower\<close> on one-byte characters.\<close>

definition char_lower :: "char \<Rightarrow> char" where
  "char_lower c =
     (case map_of (zip ''ABCDEFGHIJKLMNOPQRSTUVWXYZ'' ''abcdefghijklmnopqrstuvwxyz'') c of
        None \<Rightarrow> c
      | Some l \<Rightarrow> l)"

text \<open>Paths are strings with \<^verbatim>\<open>/\<close> as separator. \<open>path_name\<close>, \<open>path_parent\<close>
  and \<open>path_stem\<close> follow \<^verbatim>\<open>pathlib\<close> on paths without empty or dot
  components; \<open>splitext_ext\<close> is \<^verbatim>\<open>os.path.splitext(p)[1]\<close>.\<close>

definition path_name :: "string \<Rightarrow> string" where
  "path_name p = rev (takeWhile (\<lambda>c. c \<noteq> CHR ''/'') (rev p))"

definition path_parent :: "string \<Rightarrow> string" where
  "path_parent p =
     (if CHR ''/'' \<in> set p then rev (tl (dropWhile (\<lambda>c. c \<noteq> CHR ''/'') (rev p))) else ''.'')"

definition path_stem :: "string \<Rightarrow> string" where
  "path_stem p =
     (let name = path_name p;
          ext = takeWhile (\<lambda>c. c \<noteq> CHR ''.'') (rev name)
      in if CHR ''.'' \<in> set name \<and> ext \<noteq> [] \<and> length ext + 1 < length name
         then take (length name - length ext - 1) name
         else name)"

definition splitext_ext :: "string \<Rightarrow> string" where
  "splitext_ext p =
     (let name = path_name p;
          ext = takeWhile (\<lambda>c. c \<noteq> CHR ''.'') (rev name);
          root = take (length name - length ext - 1) name
      in if CHR ''.'' \<in> set name \<and> list_ex (\<lambda>c. c \<noteq> CHR ''.'') root
         then CHR ''.'' # rev ext
         else [])"

section \<open>The pipeline's collaborators\<close>

text \<open>
  A Python float is an IEEE 754 double. It is modelled by its exact value, a real number,
  and an arithmetic operation of the source by the exact operation followed by
  \<open>round_double\<close>, the rounding to the nearest double with ties to the even
  significand. Every double is an integer multiple of \<^verbatim>\<open>2^-1074\<close> with a
  significand of at most 53 bits, so the rounding drops the bits of \<open>x * denorm\<close>
  beyond the leading 53. Overflow to infinity is left out.
\<close>

text \<open>\<^verbatim>\<open>int.bit_length\<close>.\<close>

fun bit_length :: "nat \<Rightarrow> nat" where
  "bit_length n = (if n = 0 then 0 else Suc (bit_length (n div 2)))"

declare bit_length.simps [simp del]

text \<open>Rounding to the nearest integer, ties to the even one.\<close>

definition round_even :: "real \<Rightarrow> int" where
  "round_even x =
     (let n = \<lfloor>x\<rfloor>
      in if x - of_int n < 1 / 2 then n
         else if x - of_int n > 1 / 2 then n + 1
         else if even n then n else n + 1)"

definition denorm :: real where
  "denorm = 2 ^ 1074"

definition round_double :: "real \<Rightarrow> real" where
  "round_double x =
     (let y = x * denorm;
          k = bit_length (nat \<lfloor>\<bar>y\<bar>\<rfloor>) - 53
      in of_int (round_even (y / 2 ^ k)) * 2 ^ k / denorm)"

text \<open>A transcript segment: a dict whose keys \<^verbatim>\<open>start\<close>, \<^verbatim>\<open>end\<close>,
  \<^verbatim>\<open>text\<close> and \<^verbatim>\<open>speaker\<close> may be absent. Times are floats, in
  seconds.\<close>

record segment =
  seg_start :: "real option"
  seg_end :: "real option"
  seg_text :: "string option"
  speaker :: "string option"

text \<open>The engine's result dict.\<close>

record transcription =
  language :: "string option"
  segments :: "segment list option"

text \<open>\<^verbatim>\<open>result.get('segments', [])\<close>.\<close>

definition get_segments :: "transcription \<Rightarrow> segment list" where
  "get_segments r = (case segments r of None \<Rightarrow> [] | Some segs \<Rightarrow> segs)"

text \<open>What the diarization block of the engine does: it raises or times out before
  speakers are assigned, it raises after the diarization found \<open>n\<close> speakers, or it
  returns the result with speakers assigned.\<close>

datatype diarize_outcome = DiarizeFails | AssignFails nat | Diarized nat transcription

text \<open>What the alignment block of the engine does: \<^verbatim>\<open>load_align_model\<close> raises,
  which is before the block's \<^verbatim>\<open>import signal\<close>; or the rest of the block raises or
  times out; or \<^verbatim>\<open>whisperx.align\<close> returns a result.\<close>

datatype align_outcome = LoadAlignFails | AlignFails | Aligned transcription

text \<open>
  The settings and the collaborators of one pipeline run, none of which is code of the
  repository: whether pydub decodes the upload (directly, or with an explicit format), how
  a duration prints with one decimal, and what each call into WhisperX does. \<open>None\<close>
  for \<open>transcribe_result\<close> means that the call raises.
  Exporting a file and creating a directory are taken to succeed.
\<close>

record env =
  temp_dir :: string
  output_dir :: string
  from_file_ok :: bool
  from_format_ok :: bool
  fmt_secs :: "nat \<Rightarrow> string"
  import_ok :: bool
  load_model_ok :: bool
  transcribe_result :: "transcription option"
  align_result :: align_outcome
  diarize_result :: diarize_outcome

text \<open>\<^verbatim>\<open>audio[start_ms:end_ms]\<close> of pydub, for offsets that are not negative.\<close>

definition audio_slice :: "audio \<Rightarrow> int \<Rightarrow> int \<Rightarrow> audio" where
  "audio_slice a start_ms end_ms = drop (nat start_ms) (take (nat end_ms) a)"

text \<open>\<^verbatim>\<open>AudioSegment.silent(duration=n)\<close>.\<close>

definition silent :: "nat \<Rightarrow> audio" where
  "silent n = replicate n 0"

text \<open>Python's \<^verbatim>\<open>int(x)\<close> on a float: truncation towards zero.\<close>

definition py_int :: "real \<Rightarrow> int" where
  "py_int x = (if 0 \<le> x then \<lfloor>x\<rfloor> else \<lceil>x\<rceil>)"

text \<open>Loading the upload in \<^verbatim>\<open>convert_to_wav\<close>: \<^verbatim>\<open>AudioSegment.from_file\<close>,
  and on failure one more attempt with the format named by the file extension.\<close>

definition load_audio :: "env \<Rightarrow> world \<Rightarrow> string \<Rightarrow> exn + audio" where
  "load_audio env w input_path =
     (case fs w input_path of
        None \<Rightarrow> Inl (FileNotFoundError input_path)
      | Some a \<Rightarrow>
          if from_file_ok env then Inr a
          else
            let file_extension = map char_lower (splitext_ext input_path)
            in if file_extension = ''.mp3'' \<or> file_extension = ''.wav'' \<or>
                  file_extension = ''.flac'' \<or> file_extension = ''.m4a''
               then (if from_format_ok env then Inr a
                     else Inl (CouldntDecodeError ''Decoding failed''))
               else Inl (CouldntDecodeError ''Decoding failed''))"

section \<open>Pipeline stages\<close>

definition convert_to_wav :: "env \<Rightarrow> world \<Rightarrow> string \<Rightarrow> string \<Rightarrow> string res" where
  "convert_to_wav env w input_path job_id =
     (if check_job_cancelled w job_id then Raise (Exception ''Job cancelled by user'') w
      else
        let w1 = update_job_status w job_id ''processing'' ''converting'' 10
                   ''Starting audio conversion to WAV format...''
        in if fs w1 input_path = None
           then Raise (FileNotFoundError (''Input file not found: '' @ input_path)) w1
           else
             let w2 = update_job_status w1 job_id ''processing'' ''converting'' 15
                        ''Loading audio file...''
             in if check_job_cancelled w2 job_id
                then Raise (Exception ''Job cancelled by user'') w2
                else
                  (case load_audio env w2 input_path of
                     Inl e \<Rightarrow> Raise e w2
                   | Inr a \<Rightarrow>
                       let w3 = update_job_status w2 job_id ''processing'' ''converting'' 20
                                  (''Audio loaded ('' @ fmt_secs env (length a) @
                                   ''s). Exporting to WAV...'');
                           output_path = temp_dir env @ ''/'' @ job_id @ ''_converted.wav''
                       in if check_job_cancelled w3 job_id
                          then Raise (Exception ''Job cancelled by user'') w3
                          else
                            let w4 = w3\<lparr>fs := (fs w3)(output_path \<mapsto> a)\<rparr>
                            in Return output_path
                                 (update_job_status w4 job_id ''processing'' ''converting'' 25
                                    ''Audio converted to WAV format successfully'')))"

text \<open>The fixed result of \<^verbatim>\<open>_run_mock_whisperx\<close>.\<close>

definition mock_result :: transcription where
  "mock_result =
     \<lparr>language = Some ''en'',
      segments = Some
        [\<lparr>seg_start = Some 0.0, seg_end = Some 3.0,
          seg_text = Some ''Hello, welcome to our podcast.'', speaker = Some ''SPEAKER_00''\<rparr>,
         \<lparr>seg_start = Some 3.5, seg_end = Some 7.0,
          seg_text = Some ''Thank you for having me.'', speaker = Some ''SPEAKER_01''\<rparr>,
         \<lparr>seg_start = Some 7.5, seg_end = Some 11.0,
          seg_text = Some ''Let's talk about the topic.'', speaker = Some ''SPEAKER_00''\<rparr>,
         \<lparr>seg_start = Some 11.5, seg_end = Some 15.0,
          seg_text = Some ''That sounds interesting.'', speaker = Some ''SPEAKER_01''\<rparr>,
         \<lparr>seg_start = Some 15.5, seg_end = Some 19.0,
          seg_text = Some ''I think we should discuss this further.'',
          speaker = Some ''SPEAKER_00''\<rparr>,
         \<lparr>seg_start = Some 19.5, seg_end = Some 23.0,
          seg_text = Some ''Absolutely, I agree with that point.'',
          speaker = Some ''SPEAKER_01''\<rparr>]\<rparr>"

definition run_mock_whisperx :: "world \<Rightarrow> string \<Rightarrow> transcription res" where
  "run_mock_whisperx w job_id =
     (let w1 = update_job_status w job_id ''processing'' ''transcribing'' 35
                 ''Processing audio with mock WhisperX...'';
          w2 = fold (\<lambda>i w'. update_job_status w' job_id ''processing'' ''transcribing''
                               (35 + (int i + 1) * 5)
                               (''Mock WhisperX processing... '' @ str_nat (i + 1) @ ''/5''))
                 [0..<5] w1
      in Return mock_result w2)"

text \<open>The speaker label \<^verbatim>\<open>f"SPEAKER_{current_speaker:02d}"\<close>.\<close>

definition speaker_name :: "nat \<Rightarrow> string" where
  "speaker_name n = ''SPEAKER_'' @ (if n < 10 then ''0'' @ str_nat n else str_nat n)"

text \<open>\<^verbatim>\<open>segment.get('start', 0)\<close>, and \<^verbatim>\<open>segment.get('end', start_time)\<close> where
  \<^verbatim>\<open>start_time\<close> is the former.\<close>

definition start_of :: "segment \<Rightarrow> real" where
  "start_of seg = (case seg_start seg of None \<Rightarrow> 0 | Some t \<Rightarrow> t)"

definition end_of :: "segment \<Rightarrow> real" where
  "end_of seg = (case seg_end seg of None \<Rightarrow> start_of seg | Some t \<Rightarrow> t)"

text \<open>The loop of the diarization fallback; \<open>current_speaker\<close> is 0 or 1 throughout.
  The difference \<^verbatim>\<open>start_time - last_end_time\<close> is a float operation.\<close>

fun fallback_loop :: "nat \<Rightarrow> real \<Rightarrow> segment list \<Rightarrow> segment list" where
  "fallback_loop current_speaker last_end_time [] = []"
| "fallback_loop current_speaker last_end_time (seg # rest) =
     (let start_time = start_of seg;
          current_speaker' = (if round_double (start_time - last_end_time) > 2.0
                              then 1 - current_speaker else current_speaker)
      in seg\<lparr>speaker := Some (speaker_name current_speaker')\<rparr> #
         fallback_loop current_speaker' (end_of seg) rest)"

text \<open>The body of both \<^verbatim>\<open>except\<close> handlers of the diarization block.\<close>

definition fallback_speakers :: "segment list \<Rightarrow> segment list" where
  "fallback_speakers segs =
     (if length segs > 1 then fallback_loop 0 0 segs
      else map (\<lambda>seg. seg\<lparr>speaker := Some ''SPEAKER_00''\<rparr>) segs)"

text \<open>The handlers assign into the segments of \<^verbatim>\<open>result.get("segments", [])\<close>: a
  result without that key stays as it is.\<close>

definition apply_fallback :: "transcription \<Rightarrow> transcription" where
  "apply_fallback r =
     (case segments r of
        None \<Rightarrow> r
      | Some segs \<Rightarrow> r\<lparr>segments := Some (fallback_speakers segs)\<rparr>)"

text \<open>The alignment block, whose exceptions are all swallowed. It returns the result that
  goes on to the diarization, and whether \<^verbatim>\<open>import signal\<close> was reached: the
  statement stands after \<^verbatim>\<open>load_align_model(language_code=result["language"], ...)\<close>
  and before \<^verbatim>\<open>whisperx.align(result["segments"], ...)\<close>.\<close>

definition align_block :: "env \<Rightarrow> transcription \<Rightarrow> bool \<times> transcription" where
  "align_block env result =
     (case language result of
        None \<Rightarrow> (False, result)
      | Some l \<Rightarrow>
          (case align_result env of
             LoadAlignFails \<Rightarrow> (False, result)
           | AlignFails \<Rightarrow> (True, result)
           | Aligned aligned \<Rightarrow>
               (case segments result of
                  None \<Rightarrow> (True, result)
                | Some segs \<Rightarrow> (True, aligned))))"

text \<open>The \<^verbatim>\<open>try\<close> block of \<^verbatim>\<open>run_whisperx_transcription\<close>. The name
  \<^verbatim>\<open>signal\<close> is local to the function and bound by the import in the alignment
  block only: when the import was not reached, \<^verbatim>\<open>signal.signal\<close> in the diarization
  block raises and the fallback handler runs.\<close>

definition run_whisperx_transcription_try ::
  "env \<Rightarrow> world \<Rightarrow> string \<Rightarrow> string \<Rightarrow> transcription res" where
  "run_whisperx_transcription_try env w wav_path job_id =
     (if check_job_cancelled w job_id then Raise (Exception ''Job cancelled by user'') w
      else
        let w1 = update_job_status w job_id ''processing'' ''transcribing'' 30
                   ''Transcribing audio and identifying speakers...''
        in if fs w1 wav_path = None
           then Raise (FileNotFoundError (''WAV file not found: '' @ wav_path)) w1
           else if \<not> import_ok env then run_mock_whisperx w1 job_id
           else
             let w2 = update_job_status w1 job_id ''processing'' ''transcribing'' 35
                        ''Loading WhisperX model...''
             in if \<not> load_model_ok env then Raise (EngineError ''load_model failed'') w2
                else if check_job_cancelled w2 job_id
                then Raise (Exception ''Job cancelled by user'') w2
                else
                  let w3 = update_job_status w2 job_id ''processing'' ''transcribing'' 40
                             ''Transcribing audio...''
                  in (case transcribe_result env of
                        None \<Rightarrow> Raise (EngineError ''transcribe failed'') w3
                      | Some result \<Rightarrow>
                          if check_job_cancelled w3 job_id
                          then Raise (Exception ''Job cancelled by user'') w3
                          else
                            let w4 = update_job_status w3 job_id ''processing''
                                       ''transcribing'' 50 ''Aligning transcription...'';
                                signal_bound = fst (align_block env result);
                                result1 = snd (align_block env result)
                            in if check_job_cancelled w4 job_id
                               then Raise (Exception ''Job cancelled by user'') w4
                               else
                                 let w5 = update_job_status w4 job_id ''processing''
                                            ''transcribing'' 55
                                            ''Performing speaker diarization...''
                                 in if \<not> signal_bound
                                    then Return (apply_fallback result1) w5
                                    else
                                    (case diarize_result env of
                                       DiarizeFails \<Rightarrow> Return (apply_fallback result1) w5
                                     | AssignFails n \<Rightarrow>
                                         Return (apply_fallback result1)
                                           (update_job_status w5 job_id ''processing''
                                              ''transcribing'' 58
                                              (''Assigning '' @ str_nat n @
                                               '' speakers to segments...''))
                                     | Diarized n result2 \<Rightarrow>
                                         Return result2
                                           (update_job_status w5 job_id ''processing''
                                              ''transcribing'' 58
                                              (''Assigning '' @ str_nat n @
                                               '' speakers to segments...'')))))"

text \<open>The whole function: any exception of the block above, the cancellation among
  them, is answered with the mock result.\<close>

definition run_whisperx_transcription ::
  "env \<Rightarrow> world \<Rightarrow> string \<Rightarrow> string \<Rightarrow> transcription res" where
  "run_whisperx_transcription env w wav_path job_id =
     (case run_whisperx_transcription_try env w wav_path job_id of
        Raise e w' \<Rightarrow> run_mock_whisperx w' job_id
      | Return result w' \<Rightarrow> Return result w')"

text \<open>Grouping by speaker, as both \<^verbatim>\<open>separate_speakers\<close> and
  \<^verbatim>\<open>finalize_processing\<close> do it: a dict in insertion order from the speaker to the
  list of its segments.\<close>

definition get_speaker :: "segment \<Rightarrow> string" where
  "get_speaker seg = (case speaker seg of None \<Rightarrow> ''UNKNOWN'' | Some sp \<Rightarrow> sp)"

definition add_segment ::
  "(string \<times> segment list) list \<Rightarrow> segment \<Rightarrow> (string \<times> segment list) list" where
  "add_segment speaker_segments seg =
     (let sp = get_speaker seg;
          d = (if map_of speaker_segments sp = None then speaker_segments @ [(sp, [])]
               else speaker_segments)
      in map (\<lambda>(k, v). if k = sp then (k, v @ [seg]) else (k, v)) d)"

definition group_by_speaker :: "segment list \<Rightarrow> (string \<times> segment list) list" where
  "group_by_speaker segs = foldl add_segment [] segs"

text \<open>The inner loop of \<^verbatim>\<open>separate_speakers\<close>: the audio of one speaker.
  \<^verbatim>\<open>segment['start']\<close> raises on a segment without that key, and
  \<^verbatim>\<open>int(segment['start'] * 1000)\<close> truncates a float product.\<close>

fun speaker_audio :: "audio \<Rightarrow> audio \<Rightarrow> segment list \<Rightarrow> exn + audio" where
  "speaker_audio a acc [] = Inr acc"
| "speaker_audio a acc (seg # rest) =
     (case seg_start seg of
        None \<Rightarrow> Inl (KeyError ''start'')
      | Some s \<Rightarrow>
          (case seg_end seg of
             None \<Rightarrow> Inl (KeyError ''end'')
           | Some e \<Rightarrow>
               speaker_audio a
                 (acc @ audio_slice a (py_int (round_double (s * 1000)))
                          (py_int (round_double (e * 1000))) @ silent 500)
                 rest))"

text \<open>The loop over \<^verbatim>\<open>enumerate(speaker_segments.items())\<close>.\<close>

fun separate_loop ::
  "env \<Rightarrow> world \<Rightarrow> string \<Rightarrow> audio \<Rightarrow> nat \<Rightarrow> nat \<Rightarrow> (string \<times> segment list) list \<Rightarrow>
   string list \<Rightarrow> string list res" where
  "separate_loop env w job_id a total_speakers speaker_idx [] speaker_files =
     Return speaker_files w"
| "separate_loop env w job_id a total_speakers speaker_idx ((speaker_id, segs) # rest)
     speaker_files =
     (if check_job_cancelled w job_id then Raise (Exception ''Job cancelled by user'') w
      else
        let w1 = update_job_status w job_id ''processing'' ''separating''
                   (65 + (int speaker_idx * 20) div int total_speakers)
                   (''Processing speaker '' @ str_nat (speaker_idx + 1) @ ''/'' @
                    str_nat total_speakers @ '': '' @ speaker_id)
        in (case speaker_audio a [] segs of
              Inl e \<Rightarrow> Raise e w1
            | Inr sa \<Rightarrow>
                let speaker_path = output_dir env @ ''/'' @ job_id @ ''/'' @ speaker_id @ ''.wav'';
                    w2 = w1\<lparr>fs := (fs w1)(speaker_path \<mapsto> sa)\<rparr>
                in separate_loop env w2 job_id a total_speakers (speaker_idx + 1) rest
                     (speaker_files @ [speaker_path])))"

definition separate_speakers ::
  "env \<Rightarrow> world \<Rightarrow> string \<Rightarrow> transcription \<Rightarrow> string \<Rightarrow> string list res" where
  "separate_speakers env w wav_path transcription_result job_id =
     (if check_job_cancelled w job_id then Raise (Exception ''Job cancelled by user'') w
      else
        let w1 = update_job_status w job_id ''processing'' ''separating'' 60
                   ''Separating speakers into individual tracks...''
        in (case fs w1 wav_path of
              None \<Rightarrow> Raise (FileNotFoundError (''WAV file not found: '' @ wav_path)) w1
            | Some a \<Rightarrow>
                let speaker_segments = group_by_speaker (get_segments transcription_result)
                in separate_loop env w1 job_id a (length speaker_segments) 0
                     speaker_segments []))"

text \<open>\<^verbatim>\<open>SpeakerTrack.objects.create\<close>: the pair (job, speaker\_id) is unique.\<close>

definition create_track :: "world \<Rightarrow> string \<Rightarrow> string \<Rightarrow> speaker_track \<Rightarrow> unit res" where
  "create_track w job_id speaker_id track =
     (case db_tracks w (job_id, speaker_id) of
        Some t \<Rightarrow> Raise (IntegrityError ''UNIQUE constraint failed'') w
      | None \<Rightarrow> Return () (w\<lparr>db_tracks := (db_tracks w)((job_id, speaker_id) \<mapsto> track)\<rparr>))"

text \<open>The loop over \<^verbatim>\<open>enumerate(speaker_files)\<close> in \<^verbatim>\<open>finalize_processing\<close>.\<close>

fun finalize_loop ::
  "world \<Rightarrow> string \<Rightarrow> (string \<times> segment list) list \<Rightarrow> nat \<Rightarrow> nat \<Rightarrow> string list \<Rightarrow> unit res"
  where
  "finalize_loop w job_id speaker_segments n i [] = Return () w"
| "finalize_loop w job_id speaker_segments n i (speaker_file # rest) =
     (let speaker_id = path_stem speaker_file
      in case fs w speaker_file of
           None \<Rightarrow> Raise (FileNotFoundError speaker_file) w
         | Some a \<Rightarrow>
             let segs = (case map_of speaker_segments speaker_id of
                           None \<Rightarrow> [] | Some l \<Rightarrow> l);
                 wc = sum_list (map (\<lambda>seg. length (py_split
                        (case seg_text seg of None \<Rightarrow> [] | Some t \<Rightarrow> t))) segs)
             in (case create_track w job_id speaker_id
                        \<lparr>speaker_label = [], audio_file_path = speaker_file,
                         duration_ms = length a, word_count = wc\<rparr> of
                   Raise e w' \<Rightarrow> Raise e w'
                 | Return u w1 \<Rightarrow>
                     finalize_loop
                       (update_job_status w1 job_id ''processing'' ''finalizing''
                          (92 + (int i * 6) div int n)
                          (''Created track record for '' @ speaker_id))
                       job_id speaker_segments n (i + 1) rest))"

definition finalize_processing ::
  "world \<Rightarrow> string \<Rightarrow> string list \<Rightarrow> transcription \<Rightarrow> unit res" where
  "finalize_processing w job_id speaker_files transcription_result =
     (let w1 = update_job_status w job_id ''processing'' ''finalizing'' 90
                 ''Finalizing results...''
      in case db_jobs w1 job_id of
           None \<Rightarrow> Raise DoesNotExist w1
         | Some job \<Rightarrow>
             (case speaker_files of
                [] \<Rightarrow> Raise (IndexError ''list index out of range'') w1
              | first_file # others \<Rightarrow>
                  let job' = job\<lparr>speaker_count := Some (int (length speaker_files)),
                                  output_directory := Some (path_parent first_file)\<rparr>;
                      w2 = w1\<lparr>db_jobs := (db_jobs w1)(job_id \<mapsto> job')\<rparr>;
                      speaker_segments = group_by_speaker (get_segments transcription_result)
                  in (case finalize_loop w2 job_id speaker_segments (length speaker_files) 0
                             speaker_files of
                        Raise e w' \<Rightarrow> Raise e w'
                      | Return u w3 \<Rightarrow>
                          Return ()
                            (update_job_status w3 job_id ''completed'' ''completed'' 100
                               (''Processing complete! Identified '' @
                                str_nat (length speaker_files) @ '' speakers.'')))))"

section \<open>The executor\<close>

text \<open>The \<^verbatim>\<open>try\<close> block of \<^verbatim>\<open>run_separation_pipeline\<close>.\<close>

definition run_separation_pipeline_try :: "env \<Rightarrow> world \<Rightarrow> string \<Rightarrow> unit res" where
  "run_separation_pipeline_try env w job_id =
     (case db_jobs w job_id of
        None \<Rightarrow> Raise DoesNotExist w
      | Some job \<Rightarrow>
          let w1 = update_job_status w job_id ''processing'' ''initializing'' 5
                     ''Starting audio processing pipeline...''
          in (case convert_to_wav env w1 (uploaded_file_path job) job_id of
                Raise e w' \<Rightarrow> Raise e w'
              | Return wav_path w2 \<Rightarrow>
                  (case run_whisperx_transcription env w2 wav_path job_id of
                     Raise e w' \<Rightarrow> Raise e w'
                   | Return transcription_result w3 \<Rightarrow>
                       (case separate_speakers env w3 wav_path transcription_result job_id of
                          Raise e w' \<Rightarrow> Raise e w'
                        | Return speaker_files w4 \<Rightarrow>
                            (case finalize_processing w4 job_id speaker_files
                                    transcription_result of
                               Raise e w' \<Rightarrow> Raise e w'
                             | Return u w5 \<Rightarrow>
                                 Return () (w5\<lparr>fs := (fs w5)(wav_path := None)\<rparr>))))))"

text \<open>The whole function: the handler writes the failure and stores the message; nothing
  is raised to the caller.\<close>

definition run_separation_pipeline :: "env \<Rightarrow> world \<Rightarrow> string \<Rightarrow> world" where
  "run_separation_pipeline env w job_id =
     (case run_separation_pipeline_try env w job_id of
        Return u w' \<Rightarrow> w'
      | Raise e w' \<Rightarrow>
          let w1 = update_job_status w' job_id ''failed'' ''error'' 0
                     (''Processing failed: '' @ str_exn e)
          in (case db_jobs w1 job_id of
                None \<Rightarrow> w1
              | Some job \<Rightarrow>
                  w1\<lparr>db_jobs := (db_jobs w1)(job_id \<mapsto>
                       job\<lparr>error_message := Some (str_exn e)\<rparr>)\<rparr>))"

section \<open>Speaker labels\<close>

text \<open>\<^verbatim>\<open>services.update_speaker_label\<close>: any exception gives \<^verbatim>\<open>False\<close>.\<close>

definition update_speaker_label :: "world \<Rightarrow> string \<Rightarrow> string \<Rightarrow> string \<Rightarrow> bool \<times> world" where
  "update_speaker_label w job_id speaker_id new_label =
     (case db_jobs w job_id of
        None \<Rightarrow> (False, w)
      | Some job \<Rightarrow>
          (case db_tracks w (job_id, speaker_id) of
             None \<Rightarrow> (False, w)
           | Some track \<Rightarrow>
               (True, w\<lparr>db_tracks := (db_tracks w)((job_id, speaker_id) \<mapsto>
                           track\<lparr>speaker_label := new_label\<rparr>)\<rparr>)))"

text \<open>The character class \<^verbatim>\<open>[a-zA-Z0-9\s\-_]\<close> of \<^verbatim>\<open>clean_speaker_label\<close>.\<close>

definition label_char_ok :: "char \<Rightarrow> bool" where
  "label_char_ok c =
     (let n = (of_char c :: nat)
      in (97 \<le> n \<and> n \<le> 122) \<or> (65 \<le> n \<and> n \<le> 90) \<or> (48 \<le> n \<and> n \<le> 57) \<or>
         is_space c \<or> c = CHR ''-'' \<or> c = CHR ''_'')"

text \<open>The errors of \<^verbatim>\<open>SpeakerLabelForm\<close>. A Django \<^verbatim>\<open>CharField\<close> strips its
  value; an empty value is an error if the field is required and is not validated
  otherwise; on any other value the field runs its validators, the one for the maximal
  length and then the one that prohibits null characters, and reports the errors of
  both.\<close>

definition max_length_error :: "nat \<Rightarrow> nat \<Rightarrow> string" where
  "max_length_error limit n =
     ''Ensure this value has at most '' @ str_nat limit @ '' characters (it has '' @
     str_nat n @ '').''"

definition run_validators :: "nat \<Rightarrow> string \<Rightarrow> string list" where
  "run_validators limit v =
     (if length v > limit then [max_length_error limit (length v)] else []) @
     (if CHR 0x00 \<in> set v then [''Null characters are not allowed.''] else [])"

text \<open>\<^verbatim>\<open>speaker_id = forms.CharField(max_length=50)\<close>; \<open>None\<close> is a missing
  value.\<close>

definition speaker_id_errors :: "string option \<Rightarrow> string list" where
  "speaker_id_errors speaker_id =
     (case speaker_id of
        None \<Rightarrow> [''This field is required.'']
      | Some s \<Rightarrow>
          if strip s = [] then [''This field is required.'']
          else run_validators 50 (strip s))"

text \<open>\<^verbatim>\<open>speaker_label = forms.CharField(max_length=100, required=False)\<close>, and
  \<^verbatim>\<open>clean_speaker_label\<close>, which the form calls when the field itself had no
  error.\<close>

definition speaker_label_errors :: "string \<Rightarrow> string list" where
  "speaker_label_errors lbl =
     (let value = strip lbl
      in if value = [] then []
         else if run_validators 100 value \<noteq> [] then run_validators 100 value
         else
           let label = strip value
           in if label \<noteq> [] \<and> \<not> list_all label_char_ok label
              then [''Speaker label can only contain letters, numbers, spaces, hyphens, and underscores.'']
              else [])"

datatype response = JsonSuccess | JsonErrors "string list" | JsonFailure string

text \<open>What the request body holds under \<^verbatim>\<open>speaker_label\<close>: nothing, a string, or
  a value that is not a string (\<^verbatim>\<open>null\<close>, a number, a list, an object), which has
  no \<^verbatim>\<open>strip\<close>.\<close>

datatype label_field = Absent | NotText | Text string

text \<open>\<^verbatim>\<open>data.get('speaker_label', '').strip()\<close>; \<open>None\<close> when the call
  raises.\<close>

definition get_label :: "label_field \<Rightarrow> string option" where
  "get_label label =
     (case label of
        Absent \<Rightarrow> Some (strip [])
      | NotText \<Rightarrow> None
      | Text l \<Rightarrow> Some (strip l))"

text \<open>\<^verbatim>\<open>views.update_speaker_name\<close>. The body is \<open>None\<close> when it is not a JSON
  object, and otherwise the values under \<^verbatim>\<open>speaker_id\<close>, a string or \<open>None\<close>
  for an absent key or \<^verbatim>\<open>null\<close>, and under \<^verbatim>\<open>speaker_label\<close>;
  \<open>JsonSuccess\<close> is the answer 200, \<open>JsonErrors\<close> is 400, \<open>JsonFailure\<close> is 500.
  The update gets the speaker id as it came and the stripped label.\<close>

definition update_speaker_name ::
  "world \<Rightarrow> string \<Rightarrow> (string option \<times> label_field) option \<Rightarrow> response \<times> world" where
  "update_speaker_name w job_id body =
     (case body of
        None \<Rightarrow> (JsonFailure ''An unexpected error occurred'', w)
      | Some (speaker_id, label) \<Rightarrow>
          (case get_label label of
             None \<Rightarrow> (JsonFailure ''An unexpected error occurred'', w)
           | Some new_label \<Rightarrow>
               let errors = speaker_id_errors speaker_id @ speaker_label_errors new_label
               in (case speaker_id of
                     Some sid \<Rightarrow>
                       if errors = []
                       then (case update_speaker_label w job_id sid new_label of
                               (True, w') \<Rightarrow> (JsonSuccess, w')
                             | (False, w') \<Rightarrow>
                                 (JsonFailure ''Failed to update speaker name'', w'))
                       else (JsonErrors errors, w)
                   | None \<Rightarrow> (JsonErrors errors, w))))"

section \<open>Example states\<close>

text \<open>A job that was uploaded and not yet started, in an otherwise empty process.\<close>

definition job0 :: processing_job where
  "job0 = \<lparr>original_filename = ''talk.mp3'', uploaded_file_path = ''uploads/j1.mp3'',
            job_status = ''pending'', current_step = ''uploaded'', progress_percentage = 0,
            speaker_count = None, output_directory = None, error_message = None,
            started_at = None, completed_at = None\<rparr>"

definition w0 :: world where
  "w0 = \<lparr>job_statuses = [], job_cancellations = Map.empty, job_threads = {},
          db_jobs = [''j1'' \<mapsto> job0], db_tracks = Map.empty,
          fs = [''uploads/j1.mp3'' \<mapsto> [3, 1, 4, 1, 5]], clock = 100, status_log = []\<rparr>"

text \<open>The job after a complete run, with a cache entry left over from the run.\<close>

definition job_done :: processing_job where
  "job_done = job0\<lparr>job_status := ''completed'', current_step := ''completed'',
                    progress_percentage := 100, speaker_count := Some 2,
                    started_at := Some 10, completed_at := Some 90\<rparr>"

definition w_done :: world where
  "w_done = w0\<lparr>db_jobs := [''j1'' \<mapsto> job_done],
               job_statuses := [(''j1'', \<lparr>status = ''processing'', step = ''finalizing'',
                                        progress = 95,
                                        message = ''Created track record''\<rparr>)]\<rparr>"

text \<open>The job after a run that failed in the conversion, with a cache entry that still
  says \<open>processing\<close>.\<close>

definition job_failed :: processing_job where
  "job_failed = job0\<lparr>job_status := ''failed'', current_step := ''error'',
                      progress_percentage := 0, error_message := Some ''Decoding failed'',
                      started_at := Some 10, completed_at := Some 20\<rparr>"

definition w_failed_cached :: world where
  "w_failed_cached =
     w0\<lparr>db_jobs := [''j1'' \<mapsto> job_failed],
        job_statuses := [(''j1'', \<lparr>status = ''processing'', step = ''converting'',
                                 progress = 15, message = ''Loading audio file...''\<rparr>)]\<rparr>"

text \<open>A job that has been \<open>processing\<close> for 4990 seconds, without and with a cache
  entry.\<close>

definition job_stuck :: processing_job where
  "job_stuck = job0\<lparr>job_status := ''processing'', current_step := ''transcribing'',
                     progress_percentage := 40, started_at := Some 10\<rparr>"

definition w_stuck :: world where
  "w_stuck = w0\<lparr>db_jobs := [''j1'' \<mapsto> job_stuck], clock := 5000, job_threads := {''j1''}\<rparr>"

definition w_stuck_cached :: world where
  "w_stuck_cached =
     w_stuck\<lparr>job_statuses := [(''j1'', \<lparr>status = ''processing'', step = ''transcribing'',
                                         progress = 40, message = ''Transcribing audio...''\<rparr>)]\<rparr>"

text \<open>The row as the reaper saves it for a job that it found stuck.\<close>

definition timed_out :: "processing_job \<Rightarrow> int \<Rightarrow> processing_job" where
  "timed_out job now =
     job\<lparr>job_status := ''failed'', current_step := ''failed'', progress_percentage := 0,
         error_message := Some ''Processing timed out after 30 minutes'',
         completed_at := Some now\<rparr>"

text \<open>A transcript segment from \<open>s\<close> to \<open>e\<close> seconds, without a speaker.\<close>

definition seg_at :: "real \<Rightarrow> real \<Rightarrow> segment" where
  "seg_at s e =
     \<lparr>seg_start = Some s, seg_end = Some e, seg_text = Some ''words'', speaker = None\<rparr>"

text \<open>The gap before a segment, as the fallback reads it: from the end of the segment
  before it to its start, where a segment without a start starts at 0 and a segment
  without an end ends where it starts.\<close>

definition gap :: "segment \<Rightarrow> segment \<Rightarrow> real" where
  "gap prev seg =
     (case seg_start seg of None \<Rightarrow> 0 | Some s \<Rightarrow> s) -
     (case seg_end prev of
        Some e \<Rightarrow> e
      | None \<Rightarrow> (case seg_start prev of None \<Rightarrow> 0 | Some s \<Rightarrow> s))"

text \<open>The doubles nearest to 0.1 and to 2.1, which are what the float literals
  \<^verbatim>\<open>0.1\<close> and \<^verbatim>\<open>2.1\<close> denote.\<close>

definition double_0_1 :: real where
  "double_0_1 = 3602879701896397 / 2 ^ 55"

definition double_2_1 :: real where
  "double_2_1 = 4728779608739021 / 2 ^ 51"

text \<open>A run in which the engine transcribes \<open>segs\<close>, the alignment fails and so does
  the diarization.\<close>

definition transcript_of :: "segment list \<Rightarrow> transcription" where
  "transcript_of segs = \<lparr>language = Some ''en'', segments = Some segs\<rparr>"

definition env_no_diarization :: "segment list \<Rightarrow> env" where
  "env_no_diarization segs =
     \<lparr>temp_dir = ''tmp'', output_dir = ''out'', from_file_ok = True,
      from_format_ok = True, fmt_secs = (\<lambda>ms. str_nat (ms div 1000) @ ''.0''),
      import_ok = True, load_model_ok = True, transcribe_result = Some (transcript_of segs),
      align_result = AlignFails, diarize_result = DiarizeFails\<rparr>"

text \<open>A track of job \<open>j1\<close>; the job once completed, and once failed after the track was
  written.\<close>

definition track0 :: speaker_track where
  "track0 = \<lparr>speaker_label = [], audio_file_path = ''out/j1/SPEAKER_00.wav'',
             duration_ms = 11500, word_count = 17\<rparr>"

definition w_failed_tracks :: world where
  "w_failed_tracks =
     w0\<lparr>db_jobs := [''j1'' \<mapsto> job0\<lparr>job_status := ''failed'', current_step := ''error''\<rparr>],
        db_tracks := [(''j1'', ''SPEAKER_00'') \<mapsto> track0]\<rparr>"

definition w_completed :: world where
  "w_completed = w0\<lparr>db_jobs := [''j1'' \<mapsto> job_done],
                    db_tracks := [(''j1'', ''SPEAKER_00'') \<mapsto> track0]\<rparr>"

text \<open>What a valid label is, by code points: at most 100 characters, each of them an
  ASCII letter or digit, a hyphen, an underscore or a whitespace character.\<close>

definition valid_label :: "string \<Rightarrow> bool" where
  "valid_label l =
     (length l \<le> 100 \<and>
      list_all (\<lambda>c. (of_char c :: nat) \<in> {97..122} \<union> {65..90} \<union> {48..57} \<union> {45, 95} \<union>
                                        {9..13} \<union> {28..32} \<union> {133, 160}) l)"

text \<open>A run in which WhisperX cannot be imported and everything else works.\<close>

definition env0 :: env where
  "env0 = \<lparr>temp_dir = ''tmp'', output_dir = ''out'', from_file_ok = True,
            from_format_ok = True, fmt_secs = (\<lambda>ms. str_nat (ms div 1000) @ ''.0''),
            import_ok = False, load_model_ok = True, transcribe_result = None,
            align_result = LoadAlignFails, diarize_result = DiarizeFails\<rparr>"

text \<open>The state after the conversion of \<open>j1\<close>, and a transcript of one segment from
  1 ms to 3 ms.\<close>

definition w_converted :: world where
  "w_converted = w0\<lparr>fs := (fs w0)(''tmp/j1_converted.wav'' \<mapsto> [3, 1, 4, 1, 5])\<rparr>"

definition one_segment :: transcription where
  "one_segment =
     \<lparr>language = Some ''en'',
      segments = Some [\<lparr>seg_start = Some 0.001, seg_end = Some 0.003,
                        seg_text = Some ''hello'', speaker = Some ''SPEAKER_00''\<rparr>]\<rparr>"

text \<open>The audio that \<^verbatim>\<open>separate_speakers\<close> cuts out for a segment with both
  times.\<close>

definition span :: "audio \<Rightarrow> segment \<Rightarrow> audio" where
  "span a seg =
     (case (seg_start seg, seg_end seg) of
        (Some s, Some e) \<Rightarrow>
          audio_slice a (py_int (round_double (s * 1000))) (py_int (round_double (e * 1000)))
      | _ \<Rightarrow> [])"

text \<open>The engine is unavailable (the import fails) or fails beyond recovery (loading the
  model or transcribing raises).\<close>

definition engine_down :: "env \<Rightarrow> bool" where
  "engine_down env = (\<not> import_ok env \<or> \<not> load_model_ok env \<or> transcribe_result env = None)"

text \<open>Two relations between a state and a later one, for the proofs about whole runs:
  \<open>quiet\<close> keeps the cancellation flags, the existence of the row of job \<open>j\<close> and its
  speaker count; \<open>status_only\<close> keeps the files and the tracks as well.\<close>

definition quiet :: "string \<Rightarrow> world \<Rightarrow> world \<Rightarrow> bool" where
  "quiet j w w' =
     (job_cancellations w' = job_cancellations w \<and>
      (db_jobs w' j = None) = (db_jobs w j = None) \<and>
      map_option speaker_count (db_jobs w' j) = map_option speaker_count (db_jobs w j))"

definition status_only :: "string \<Rightarrow> world \<Rightarrow> world \<Rightarrow> bool" where
  "status_only j w w' = (quiet j w w' \<and> fs w' = fs w \<and> db_tracks w' = db_tracks w)"

section \<open>Properties of status writes\<close>

lemma upd_fs [simp]: "fs (update_job_status w j st stp p m) = fs w"
  by (simp add: update_job_status_def update_job_status_try_def set_job_fields_def Let_def split: option.splits)

lemma upd_cancellations [simp]:
  "job_cancellations (update_job_status w j st stp p m) = job_cancellations w"
  by (simp add: update_job_status_def update_job_status_try_def set_job_fields_def Let_def split: option.splits)

lemma cancelled_upd [simp]:
  "check_job_cancelled (update_job_status w j st stp p m) j' = check_job_cancelled w j'"
  by (simp add: check_job_cancelled_def)

text \<open>
  Claim C10. While the cancellation flag of a job is set, a call of
  \<open>update_job_status\<close> whose status is neither \<open>failed\<close> nor \<open>cancelled\<close> returns
  the state it was given: the cache, the database row and everything else are as before.
  So a call that changes the state under the flag records \<open>failed\<close> or \<open>cancelled\<close>,
  and the flag is still set afterwards.
\<close>

theorem cancelled_job_discards_other_writes:
  assumes "check_job_cancelled w job_id"
  shows "(st \<noteq> ''failed'' \<and> st \<noteq> ''cancelled'' \<longrightarrow>
            update_job_status w job_id st stp prog msg = w) \<and>
         (update_job_status w job_id st stp prog msg \<noteq> w \<longrightarrow>
            st = ''failed'' \<or> st = ''cancelled'') \<and>
         check_job_cancelled (update_job_status w job_id st stp prog msg) job_id"
proof -
  have discarded: "update_job_status w job_id st stp prog msg = w"
    if "st \<noteq> ''failed''" "st \<noteq> ''cancelled''"
    using assms that by (simp add: update_job_status_def update_job_status_try_def set_job_fields_def)
  have still: "check_job_cancelled (update_job_status w job_id st stp prog msg) job_id"
    using assms by simp
  from discarded still show ?thesis by blast
qed

text \<open>The flag as \<open>cancel_job\<close> sets it: writes of \<open>processing\<close> and of
  \<open>completed\<close> are dropped.\<close>

theorem cancelled_job_discards_other_writes_witness:
  "check_job_cancelled (snd (cancel_job w0 ''j1'')) ''j1'' \<and>
   update_job_status (snd (cancel_job w0 ''j1'')) ''j1'' ''processing'' ''converting'' 10
     ''Starting audio conversion to WAV format...'' = snd (cancel_job w0 ''j1'') \<and>
   update_job_status (snd (cancel_job w0 ''j1'')) ''j1'' ''completed'' ''completed'' 100 [] =
     snd (cancel_job w0 ''j1'')"
proof -
  have c: "check_job_cancelled (snd (cancel_job w0 ''j1'')) ''j1''"
    by (simp add: cancel_job_def Let_def check_job_cancelled_def)
  show ?thesis
    using c cancelled_job_discards_other_writes [OF c, of "''processing''"]
      cancelled_job_discards_other_writes [OF c, of "''completed''"]
    by simp
qed

text \<open>
  Claim C1, as the code has it. A call of \<open>update_job_status\<close> that the cancellation
  gate lets through writes the cache entry first, and the entry holds the new snapshot
  whatever happens next. Then the database row is loaded and saved with the new status,
  step and progress. When the row is missing the load raises inside the \<^verbatim>\<open>try\<close>
  block, the database is left as it was, the cache keeps the new entry, and the handler
  swallows the exception: the call returns normally.
\<close>

theorem update_job_status_cache_then_db:
  assumes "\<not> (check_job_cancelled w job_id \<and> st \<noteq> ''failed'' \<and> st \<noteq> ''cancelled'')"
  shows "map_of (job_statuses (update_job_status w job_id st stp prog msg)) job_id =
           Some \<lparr>status = st, step = stp, progress = prog, message = msg\<rparr> \<and>
         (case db_jobs w job_id of
            None \<Rightarrow>
              update_job_status_try w job_id st stp prog msg =
                Raise DoesNotExist (update_job_status w job_id st stp prog msg) \<and>
              db_jobs (update_job_status w job_id st stp prog msg) = db_jobs w
          | Some job \<Rightarrow>
              update_job_status_try w job_id st stp prog msg =
                Return () (update_job_status w job_id st stp prog msg) \<and>
              (\<exists>job'. db_jobs (update_job_status w job_id st stp prog msg) job_id = Some job' \<and>
                 job_status job' = st \<and> current_step job' = stp \<and>
                 progress_percentage job' = prog))"
  using assms
  by (auto simp add: update_job_status_def update_job_status_try_def set_job_fields_def Let_def update_conv'
      split: option.splits)

theorem update_job_status_cache_then_db_witness:
  "\<not> check_job_cancelled w0 ''j1'' \<and>
   map_of (job_statuses
     (update_job_status w0 ''j1'' ''processing'' ''converting'' 10 ''Loading'')) ''j1'' =
     Some \<lparr>status = ''processing'', step = ''converting'', progress = 10,
           message = ''Loading''\<rparr> \<and>
   (\<exists>job'. db_jobs (update_job_status w0 ''j1'' ''processing'' ''converting'' 10 ''Loading'')
             ''j1'' = Some job' \<and>
      job_status job' = ''processing'' \<and> progress_percentage job' = 10)"
proof -
  have c: "\<not> (check_job_cancelled w0 ''j1'' \<and> ''processing'' \<noteq> ''failed'' \<and>
              ''processing'' \<noteq> ''cancelled'')"
    by (simp add: w0_def check_job_cancelled_def)
  have d: "db_jobs w0 ''j1'' = Some job0"
    by (simp add: w0_def)
  show ?thesis
    using update_job_status_cache_then_db [OF c, of "''converting''" 10 "''Loading''"] c d
    by auto
qed

text \<open>The claim as the specification states it fails for a job without a database row:
  the durable write fails (the \<^verbatim>\<open>try\<close> block raises \<open>DoesNotExist\<close>), the call
  still returns, and the cache entry, absent before, now holds the new snapshot.\<close>

theorem failed_durable_write_counterexample:
  "db_jobs w0 ''j2'' = None \<and>
   map_of (job_statuses w0) ''j2'' = None \<and>
   update_job_status_try w0 ''j2'' ''processing'' ''converting'' 10 ''Loading'' =
     Raise DoesNotExist
       (update_job_status w0 ''j2'' ''processing'' ''converting'' 10 ''Loading'') \<and>
   map_of (job_statuses
     (update_job_status w0 ''j2'' ''processing'' ''converting'' 10 ''Loading'')) ''j2'' =
     Some \<lparr>status = ''processing'', step = ''converting'', progress = 10,
           message = ''Loading''\<rparr>"
  by (simp add: w0_def update_job_status_def update_job_status_try_def set_job_fields_def
      check_job_cancelled_def Let_def)

section \<open>Properties of status reads and of the reaper\<close>

lemma stale_scan_frame:
  "clock (fst (stale_scan w xs st)) = clock w \<and>
   job_statuses (fst (stale_scan w xs st)) = job_statuses w \<and>
   job_threads (fst (stale_scan w xs st)) = job_threads w \<and>
   job_cancellations (fst (stale_scan w xs st)) = job_cancellations w"
  by (induction w xs st rule: stale_scan.induct) (auto split: option.splits)

text \<open>The scan leaves every row alone that is not \<open>processing\<close>.\<close>

lemma stale_scan_keeps_settled:
  "db_jobs w j = Some job \<Longrightarrow> job_status job \<noteq> ''processing'' \<Longrightarrow>
   db_jobs (fst (stale_scan w xs st)) j = Some job"
proof (induction w xs st rule: stale_scan.induct)
  case (1 w stale_jobs)
  then show ?case by simp
next
  case (2 w job_id s rest stale_jobs)
  show ?case
  proof (cases "job_id = j")
    case True
    with 2 show ?thesis by simp
  next
    case False
    with 2 show ?thesis by (auto split: option.splits)
  qed
qed

text \<open>The scan visits the keys of the cache only.\<close>

lemma stale_scan_uncached:
  "j \<notin> fst ` set xs \<Longrightarrow> db_jobs (fst (stale_scan w xs st)) j = db_jobs w j"
  by (induction w xs st rule: stale_scan.induct) (auto split: option.splits)

lemma stale_scan_mono:
  "set st \<subseteq> set (snd (stale_scan w xs st))"
  by (induction w xs st rule: stale_scan.induct) (auto split: option.splits)

lemma stale_scan_stale:
  "j \<in> fst ` set xs \<Longrightarrow> db_jobs w j = Some job \<Longrightarrow> job_status job = ''processing'' \<Longrightarrow>
   started_at job = Some t \<Longrightarrow> clock w - t > 1800 \<Longrightarrow>
   db_jobs (fst (stale_scan w xs st)) j = Some (timed_out job (clock w)) \<and>
   j \<in> set (snd (stale_scan w xs st))"
proof (induction w xs st rule: stale_scan.induct)
  case (1 w stale_jobs)
  then show ?case by simp
next
  case (2 w job_id s rest stale_jobs)
  show ?case
  proof (cases "job_id = j")
    case True
    let ?w' = "w\<lparr>db_jobs := (db_jobs w)(j \<mapsto> timed_out job (clock w))\<rparr>"
    have "db_jobs (fst (stale_scan ?w' rest (stale_jobs @ [j]))) j =
            Some (timed_out job (clock w))"
      by (rule stale_scan_keeps_settled) (simp_all add: timed_out_def)
    moreover have "j \<in> set (snd (stale_scan ?w' rest (stale_jobs @ [j])))"
      using stale_scan_mono [of "stale_jobs @ [j]" ?w' rest] by auto
    ultimately show ?thesis
      using True 2(4-) by (simp add: timed_out_def)
  next
    case False
    then have "j \<in> fst ` set rest"
      using 2(4) by auto
    then show ?thesis
      using False 2 by (auto split: option.splits)
  qed
qed

lemma fold_delete_absent:
  "map_of al j = None \<Longrightarrow> map_of (fold AList.delete ks al) j = None"
  by (induction ks arbitrary: al) (simp_all add: delete_conv')

lemma fold_delete_removes:
  "j \<in> set ks \<Longrightarrow> map_of (fold AList.delete ks al) j = None"
proof (induction ks arbitrary: al)
  case Nil
  then show ?case by simp
next
  case (Cons k ks)
  show ?case
  proof (cases "k = j")
    case True
    then show ?thesis
      using fold_delete_absent [of "AList.delete j al" j ks] by (simp add: delete_conv')
  next
    case False
    then show ?thesis
      using Cons by simp
  qed
qed

lemma clean_db:
  "db_jobs (clean_stale_cache_entries w) = db_jobs (fst (stale_scan w (job_statuses w) []))"
  by (simp add: clean_stale_cache_entries_def split: prod.splits)

text \<open>
  Claim C3. For a job whose database row is \<open>completed\<close> or \<open>failed\<close>,
  \<open>get_job_status\<close> answers with the status, the step and the progress of that row
  and with the message made of the step's display name (the step itself when it has
  none), whatever the cache holds (\<open>cache\<close> is arbitrary, a stale entry for the job
  included) and whether or not the read also runs the reaper: the cache is not consulted
  for such a job.
\<close>

theorem get_job_status_terminal_from_db:
  assumes "db_jobs w job_id = Some job"
    and "job_status job = ''completed'' \<or> job_status job = ''failed''"
  shows "fst (get_job_status (w\<lparr>job_statuses := cache\<rparr>) job_id clean) =
           \<lparr>status = job_status job, step = current_step job,
            progress = progress_percentage job,
            message = ''Current step: '' @
              (case map_of
                      [(''uploaded'', ''File Uploaded''),
                       (''converting'', ''Converting Audio Format''),
                       (''transcribing'', ''Transcribing with WhisperX''),
                       (''separating'', ''Separating Speakers''),
                       (''finalizing'', ''Finalizing Output''),
                       (''completed'', ''Processing Complete'')] (current_step job) of
                 None \<Rightarrow> current_step job
               | Some label \<Rightarrow> label)\<rparr>"
proof -
  let ?w = "w\<lparr>job_statuses := cache\<rparr>"
  have settled: "job_status job \<noteq> ''processing''"
    using assms(2) by auto
  have "db_jobs (if clean then clean_stale_cache_entries ?w else ?w) job_id = Some job"
    using assms(1) settled by (simp add: clean_db stale_scan_keeps_settled)
  then have "fst (get_job_status ?w job_id clean) = db_status job"
    using assms(2) by (auto simp add: get_job_status_def Let_def)
  then show ?thesis
    by (simp add: db_status_def get_current_step_display_def STEP_CHOICES_def)
qed

text \<open>The row says \<open>failed\<close> at step \<open>error\<close> with progress 0 and the cache says
  \<open>processing\<close> at 15: the read, here one that also runs the reaper, answers from
  the row. The row says \<open>completed\<close> and the cache says \<open>processing\<close> at 95: the
  read answers from the row.\<close>

theorem get_job_status_terminal_from_db_witness:
  "db_jobs w_failed_cached ''j1'' = Some job_failed \<and> job_status job_failed = ''failed'' \<and>
   map_of (job_statuses w_failed_cached) ''j1'' =
     Some \<lparr>status = ''processing'', step = ''converting'', progress = 15,
           message = ''Loading audio file...''\<rparr> \<and>
   fst (get_job_status w_failed_cached ''j1'' True) =
     \<lparr>status = ''failed'', step = ''error'', progress = 0,
      message = ''Current step: error''\<rparr> \<and>
   db_jobs w_done ''j1'' = Some job_done \<and> job_status job_done = ''completed'' \<and>
   map_of (job_statuses w_done) ''j1'' =
     Some \<lparr>status = ''processing'', step = ''finalizing'', progress = 95,
           message = ''Created track record''\<rparr> \<and>
   fst (get_job_status w_done ''j1'' False) =
     \<lparr>status = ''completed'', step = ''completed'', progress = 100,
      message = ''Current step: Processing Complete''\<rparr>"
proof -
  have a: "db_jobs w_failed_cached ''j1'' = Some job_failed"
    by (simp add: w_failed_cached_def)
  have b: "job_status job_failed = ''completed'' \<or> job_status job_failed = ''failed''"
    by (simp add: job_failed_def job0_def)
  have c: "w_failed_cached\<lparr>job_statuses := job_statuses w_failed_cached\<rparr> = w_failed_cached"
    by simp
  have failed: "fst (get_job_status w_failed_cached ''j1'' True) =
     \<lparr>status = ''failed'', step = ''error'', progress = 0,
      message = ''Current step: error''\<rparr>"
    using get_job_status_terminal_from_db [OF a b, of "job_statuses w_failed_cached" True]
    unfolding c by (simp add: job_failed_def job0_def)
  have a': "db_jobs w_done ''j1'' = Some job_done"
    by (simp add: w_done_def)
  have b': "job_status job_done = ''completed'' \<or> job_status job_done = ''failed''"
    by (simp add: job_done_def)
  have c': "w_done\<lparr>job_statuses := job_statuses w_done\<rparr> = w_done"
    by simp
  have completed: "fst (get_job_status w_done ''j1'' False) =
     \<lparr>status = ''completed'', step = ''completed'', progress = 100,
      message = ''Current step: Processing Complete''\<rparr>"
    using get_job_status_terminal_from_db [OF a' b', of "job_statuses w_done" False]
    unfolding c' by (simp add: job_done_def job0_def)
  show ?thesis
    using a failed a' completed
    by (simp add: job_failed_def job_done_def job0_def w_failed_cached_def w_done_def)
qed

text \<open>
  Claim C8, as the code has it. Take a job whose database row is \<open>processing\<close> and was
  started more than 1800 seconds before now. If the job has a cache entry, one run of
  \<open>clean_stale_cache_entries\<close> saves the row with status \<open>failed\<close>, step
  \<open>failed\<close>, progress 0, the message \<^verbatim>\<open>Processing timed out after 30 minutes\<close>
  and the completion time, and removes the cache entry. If the job has no cache entry,
  its row stays as it is. The registry of threads is not touched in either case.
\<close>

theorem reaper_fails_stale_cached_jobs:
  assumes "db_jobs w job_id = Some job"
    and "job_status job = ''processing''"
    and "started_at job = Some t"
    and "clock w - t > 1800"
  shows "(job_id \<in> fst ` set (job_statuses w) \<longrightarrow>
            db_jobs (clean_stale_cache_entries w) job_id = Some (timed_out job (clock w)) \<and>
            map_of (job_statuses (clean_stale_cache_entries w)) job_id = None) \<and>
         (job_id \<notin> fst ` set (job_statuses w) \<longrightarrow>
            db_jobs (clean_stale_cache_entries w) job_id = Some job) \<and>
         job_threads (clean_stale_cache_entries w) = job_threads w"
proof -
  obtain w1 stale where scan: "stale_scan w (job_statuses w) [] = (w1, stale)"
    by (cases "stale_scan w (job_statuses w) []")
  have clean: "clean_stale_cache_entries w =
      w1\<lparr>job_statuses := fold AList.delete stale (job_statuses w1)\<rparr>"
    by (simp add: clean_stale_cache_entries_def scan)
  have threads: "job_threads w1 = job_threads w"
    using stale_scan_frame [of w "job_statuses w" "[]"] scan by simp
  have cached: "db_jobs w1 job_id = Some (timed_out job (clock w)) \<and> job_id \<in> set stale"
    if "job_id \<in> fst ` set (job_statuses w)"
    using stale_scan_stale [OF that assms, of "[]"] scan by simp
  have uncached: "db_jobs w1 job_id = Some job" if "job_id \<notin> fst ` set (job_statuses w)"
    using stale_scan_uncached [OF that, of w "[]"] scan assms(1) by simp
  show ?thesis
    using cached uncached threads by (auto simp add: clean fold_delete_removes)
qed

text \<open>The stuck job with a cache entry: the row is saved with step \<open>failed\<close>, the cache
  entry goes, the thread registry still lists the job.\<close>

theorem reaper_fails_stale_cached_jobs_witness:
  "db_jobs w_stuck_cached ''j1'' = Some job_stuck \<and>
   ''j1'' \<in> fst ` set (job_statuses w_stuck_cached) \<and>
   clock w_stuck_cached - 10 > 1800 \<and>
   db_jobs (clean_stale_cache_entries w_stuck_cached) ''j1'' =
     Some (job_stuck\<lparr>job_status := ''failed'', current_step := ''failed'',
                      progress_percentage := 0,
                      error_message := Some ''Processing timed out after 30 minutes'',
                      completed_at := Some 5000\<rparr>) \<and>
   map_of (job_statuses (clean_stale_cache_entries w_stuck_cached)) ''j1'' = None \<and>
   job_threads (clean_stale_cache_entries w_stuck_cached) = {''j1''}"
proof -
  have a: "db_jobs w_stuck_cached ''j1'' = Some job_stuck"
    by (simp add: w_stuck_cached_def w_stuck_def)
  have b: "job_status job_stuck = ''processing''" and c: "started_at job_stuck = Some 10"
    by (simp_all add: job_stuck_def)
  have d: "clock w_stuck_cached - 10 > 1800"
    by (simp add: w_stuck_cached_def w_stuck_def)
  have e: "''j1'' \<in> fst ` set (job_statuses w_stuck_cached)"
    by (simp add: w_stuck_cached_def)
  have f: "clock w_stuck_cached = 5000" "job_threads w_stuck_cached = {''j1''}"
    by (simp_all add: w_stuck_cached_def w_stuck_def)
  show ?thesis
    using reaper_fails_stale_cached_jobs [OF a b c d] a d e f
    by (simp add: timed_out_def)
qed

text \<open>The same job without a cache entry: the scan does not reach it, and the row is
  still \<open>processing\<close> after the scan.\<close>

theorem reaper_skips_uncached_job_counterexample:
  "db_jobs w_stuck ''j1'' = Some job_stuck \<and>
   job_status job_stuck = ''processing'' \<and>
   started_at job_stuck = Some 10 \<and>
   clock w_stuck - 10 > 1800 \<and>
   db_jobs (clean_stale_cache_entries w_stuck) ''j1'' = Some job_stuck \<and>
   job_threads (clean_stale_cache_entries w_stuck) = {''j1''}"
  by (simp add: w_stuck_def w0_def job_stuck_def clean_stale_cache_entries_def)

section \<open>Properties of float rounding\<close>

lemma bit_length_le: "(bit_length n \<le> w) = (n < 2 ^ w)"
proof (induction n arbitrary: w rule: bit_length.induct)
  case (1 n)
  show ?case
  proof (cases "n = 0")
    case True
    then show ?thesis by (simp add: bit_length.simps)
  next
    case False
    show ?thesis
    proof (cases w)
      case 0
      then show ?thesis using False by (simp add: bit_length.simps [of n])
    next
      case (Suc v)
      have "(bit_length (n div 2) \<le> v) = (n div 2 < 2 ^ v)"
        using 1 [OF False] .
      moreover have "(n div 2 < 2 ^ v) = (n < 2 * 2 ^ v)"
        by (simp add: div_less_iff_less_mult mult.commute)
      ultimately show ?thesis
        using False Suc by (simp add: bit_length.simps [of n])
    qed
  qed
qed

lemma round_even_le: "x \<le> of_int m \<Longrightarrow> round_even x \<le> m"
  unfolding round_even_def Let_def by (auto; linarith)

lemma round_even_ge: "of_int m \<le> x \<Longrightarrow> m \<le> round_even x"
  unfolding round_even_def Let_def by (auto; linarith)

lemma round_even_of_int [simp]: "round_even (of_int m) = m"
  unfolding round_even_def Let_def by simp

lemma round_even_gt:
  assumes "even m"
  shows "(m < round_even x) = (of_int m + 1 / 2 < x)"
proof -
  define n where "n = \<lfloor>x\<rfloor>"
  have n: "of_int n \<le> x" "x < of_int n + 1"
    unfolding n_def by linarith+
  consider "n < m" | "n = m" | "m < n"
    by linarith
  then show ?thesis
  proof cases
    case 1
    then have "n + 1 \<le> m" by simp
    then have "real_of_int n + 1 \<le> of_int m" by linarith
    moreover have "round_even x \<le> n + 1"
      unfolding round_even_def Let_def n_def by simp
    ultimately show ?thesis
      using n 1 by linarith
  next
    case 2
    then show ?thesis
      using assms n unfolding round_even_def Let_def n_def [symmetric] by auto
  next
    case 3
    then have "real_of_int m + 1 \<le> of_int n" by linarith
    moreover have "n \<le> round_even x"
      unfolding round_even_def Let_def n_def by simp
    ultimately show ?thesis
      using n 3 by linarith
  qed
qed


lemma bit_length_eq:
  "2 ^ b \<le> n \<Longrightarrow> n < 2 ^ Suc b \<Longrightarrow> bit_length n = Suc b"
  using bit_length_le [of n "Suc b"] bit_length_le [of n b] by simp

lemma nat_floor_ge:
  fixes y :: real
  assumes "0 \<le> y"
  shows "(2 ^ b \<le> nat \<lfloor>y\<rfloor>) = (2 ^ b \<le> y)"
proof -
  have "(2 ^ b \<le> nat \<lfloor>y\<rfloor>) = ((2::int) ^ b \<le> \<lfloor>y\<rfloor>)"
    using assms by (simp add: le_nat_iff)
  also have "\<dots> = (of_int (2 ^ b) \<le> y)"
    by (rule le_floor_iff)
  finally show ?thesis
    by simp
qed

lemma nat_floor_less:
  fixes y :: real
  assumes "0 \<le> y"
  shows "(nat \<lfloor>y\<rfloor> < 2 ^ b) = (y < 2 ^ b)"
  using nat_floor_ge [OF assms, of b] by (simp only: not_le [symmetric])

lemma bit_length_floor_le:
  fixes y :: real
  shows "(bit_length (nat \<lfloor>\<bar>y\<bar>\<rfloor>) \<le> b) = (\<bar>y\<bar> < 2 ^ b)"
  by (simp only: bit_length_le nat_floor_less [OF abs_ge_zero])

lemma denorm_pos [simp]: "0 < denorm"
  by (simp add: denorm_def)

lemma denorm_nonneg [simp]: "0 \<le> denorm"
  by (simp add: denorm_def)

lemma abs_denorm [simp]: "\<bar>denorm\<bar> = denorm"
  by (simp add: denorm_def)

lemma of_int_pow2_le: "(2 ^ a \<le> real_of_int m) = (2 ^ a \<le> m)"
  by (metis of_int_le_iff of_int_numeral of_int_power)

lemma of_int_le_pow2: "(real_of_int m \<le> 2 ^ a) = (m \<le> 2 ^ a)"
  by (metis of_int_le_iff of_int_numeral of_int_power)

text \<open>Rounding within one binade.\<close>

lemma round_double_binade:
  assumes "2 ^ (52 + k) \<le> \<bar>x\<bar> * denorm" and "\<bar>x\<bar> * denorm < 2 ^ (53 + k)"
  shows "round_double x = of_int (round_even (x * denorm / 2 ^ k)) * 2 ^ k / denorm"
proof -
  have abs: "\<bar>x * denorm\<bar> = \<bar>x\<bar> * denorm"
    by (simp add: abs_mult)
  have "bit_length (nat \<lfloor>\<bar>x * denorm\<bar>\<rfloor>) \<le> 53 + k"
    using assms(2) bit_length_floor_le [of "x * denorm" "53 + k"] by (simp only: abs)
  moreover have "\<not> bit_length (nat \<lfloor>\<bar>x * denorm\<bar>\<rfloor>) \<le> 52 + k"
    using assms(1) bit_length_floor_le [of "x * denorm" "52 + k"] by (simp only: abs not_less)
  ultimately have "bit_length (nat \<lfloor>\<bar>x * denorm\<bar>\<rfloor>) - 53 = k"
    by linarith
  then show ?thesis
    unfolding round_double_def Let_def by simp
qed

lemma round_double_nonpos:
  assumes "x \<le> 0"
  shows "round_double x \<le> 0"
proof -
  define k where "k = bit_length (nat \<lfloor>\<bar>x * denorm\<bar>\<rfloor>) - 53"
  have "x * denorm \<le> 0"
    using assms by (simp add: mult_nonpos_nonneg)
  then have "x * denorm / 2 ^ k \<le> of_int 0"
    by (simp add: divide_nonpos_pos)
  then have "round_even (x * denorm / 2 ^ k) \<le> 0"
    by (rule round_even_le)
  then have "real_of_int (round_even (x * denorm / 2 ^ k)) * 2 ^ k / denorm \<le> 0"
    by (simp add: divide_nonpos_pos mult_nonpos_nonneg)
  then show ?thesis
    unfolding round_double_def Let_def k_def .
qed

lemma round_double_le_pow2:
  assumes "0 \<le> x" and "x * denorm \<le> 2 ^ j"
  shows "round_double x \<le> 2 ^ j / denorm"
proof -
  define y where "y = x * denorm"
  define k where "k = bit_length (nat \<lfloor>\<bar>y\<bar>\<rfloor>) - 53"
  have y: "0 \<le> y" "y \<le> 2 ^ j"
    using assms by (simp_all add: y_def)
  have "(2::real) ^ j < 2 ^ Suc j"
    by simp
  then have "\<bar>y\<bar> < 2 ^ Suc j"
    using y by linarith
  then have "bit_length (nat \<lfloor>\<bar>y\<bar>\<rfloor>) \<le> Suc j"
    by (simp only: bit_length_floor_le)
  then have kj: "k \<le> j"
    by (simp add: k_def)
  have "y / 2 ^ k \<le> 2 ^ j / 2 ^ k"
    using y(2) by (simp add: divide_right_mono)
  also have "(2::real) ^ j / 2 ^ k = of_int (2 ^ (j - k))"
  proof -
    have "(2::real) ^ j = 2 ^ (j - k) * 2 ^ k"
      using kj by (simp add: power_add [symmetric])
    then show ?thesis
      by simp
  qed
  finally have "round_even (y / 2 ^ k) \<le> 2 ^ (j - k)"
    by (rule round_even_le)
  then have "real_of_int (round_even (y / 2 ^ k)) \<le> 2 ^ (j - k)"
    by (simp only: of_int_le_pow2)
  then have "real_of_int (round_even (y / 2 ^ k)) * 2 ^ k \<le> 2 ^ (j - k) * 2 ^ k"
    by (simp add: mult_right_mono)
  also have "(2::real) ^ (j - k) * 2 ^ k = 2 ^ j"
    using kj by (simp add: power_add [symmetric])
  finally have "real_of_int (round_even (y / 2 ^ k)) * 2 ^ k / denorm \<le> 2 ^ j / denorm"
    by (simp add: divide_right_mono)
  then show ?thesis
    unfolding round_double_def Let_def y_def [symmetric] k_def [symmetric] .
qed

lemma round_double_ge_pow2:
  assumes "2 ^ j \<le> x * denorm"
  shows "2 ^ j / denorm \<le> round_double x"
proof -
  define y where "y = x * denorm"
  define b where "b = bit_length (nat \<lfloor>\<bar>y\<bar>\<rfloor>)"
  define k where "k = b - 53"
  have y: "2 ^ j \<le> y"
    using assms by (simp add: y_def)
  have "(0::real) < 2 ^ j"
    by simp
  then have pos: "0 < y" and abs: "\<bar>y\<bar> = y"
    using y by linarith+
  have r: "round_double x = real_of_int (round_even (y / 2 ^ k)) * 2 ^ k / denorm"
    unfolding round_double_def Let_def y_def [symmetric] k_def b_def ..
  have "\<not> \<bar>y\<bar> < 2 ^ j"
    using y abs by linarith
  then have "\<not> b \<le> j"
    unfolding b_def by (simp add: bit_length_floor_le)
  then have jb: "j < b"
    by simp
  have "2 ^ j \<le> real_of_int (round_even (y / 2 ^ k)) * 2 ^ k"
  proof (cases "b \<le> 53")
    case True
    then have k0: "k = 0"
      by (simp add: k_def)
    have "of_int (2 ^ j) \<le> y"
      using y by simp
    then have "2 ^ j \<le> round_even y"
      by (rule round_even_ge)
    then have "(2::real) ^ j \<le> real_of_int (round_even y)"
      by (simp only: of_int_pow2_le)
    then show ?thesis
      by (simp add: k0)
  next
    case False
    then have b: "b = Suc (52 + k)"
      by (simp add: k_def)
    have "\<not> b \<le> 52 + k"
      using b by simp
    then have "\<not> \<bar>y\<bar> < 2 ^ (52 + k)"
      unfolding b_def by (simp add: bit_length_floor_le)
    then have "2 ^ 52 * 2 ^ k \<le> y"
      using abs by (simp add: power_add)
    then have "of_int (2 ^ 52) \<le> y / 2 ^ k"
      by (simp add: pos_le_divide_eq)
    then have "2 ^ 52 \<le> round_even (y / 2 ^ k)"
      by (rule round_even_ge)
    then have "(2::real) ^ 52 \<le> real_of_int (round_even (y / 2 ^ k))"
      by (simp only: of_int_pow2_le)
    then have "(2::real) ^ 52 * 2 ^ k \<le> real_of_int (round_even (y / 2 ^ k)) * 2 ^ k"
      by (rule mult_right_mono) simp
    moreover have "(2::real) ^ j \<le> 2 ^ (52 + k)"
      using jb b by (intro power_increasing) simp_all
    ultimately show ?thesis
      by (simp only: power_add)
  qed
  then show ?thesis
    unfolding r by (simp add: divide_right_mono)
qed

text \<open>The comparison of the fallback: a rounded difference exceeds 2.0 exactly when the
  difference exceeds 2 + 2^-52, the midpoint between 2.0 and the next double.\<close>

lemma round_double_gt_2: "(2 < round_double d) = (2 + 1 / 2 ^ 52 < d)"
proof -
  have two: "2 * denorm = 2 ^ 1075" and four: "4 * denorm = 2 ^ 1076"
    by (simp_all add: denorm_def)
  have small: "(0::real) < 1 / 2 ^ 52"
    by simp
  consider "d \<le> 0" | "0 \<le> d" "d \<le> 2" | "2 \<le> d" "d < 4" | "4 \<le> d"
    by linarith
  then show ?thesis
  proof cases
    case 1
    then show ?thesis
      using round_double_nonpos [of d] small by linarith
  next
    case 2
    have "d * denorm \<le> 2 * denorm"
      using 2 by simp
    then have "round_double d \<le> 2 ^ 1075 / denorm"
      using 2 by (intro round_double_le_pow2) (simp_all only: two)
    also have "2 ^ 1075 / denorm = 2"
      by (simp add: denorm_def)
    finally show ?thesis
      using 2 small by linarith
  next
    case 3
    have abs: "\<bar>d\<bar> = d"
      using 3 by simp
    have "2 * denorm \<le> d * denorm" "d * denorm < 4 * denorm"
      using 3 by simp_all
    then have "2 ^ (52 + 1023) \<le> \<bar>d\<bar> * denorm" "\<bar>d\<bar> * denorm < 2 ^ (53 + 1023)"
      unfolding abs two four by simp_all
    then have "round_double d =
        of_int (round_even (d * denorm / 2 ^ 1023)) * 2 ^ 1023 / denorm"
      by (rule round_double_binade)
    also have "d * denorm / 2 ^ 1023 = d * 2 ^ 51"
      by (simp add: denorm_def)
    also have "of_int (round_even (d * 2 ^ 51)) * 2 ^ 1023 / denorm =
        of_int (round_even (d * 2 ^ 51)) / 2 ^ 51"
      by (simp add: denorm_def)
    finally have r: "round_double d = of_int (round_even (d * 2 ^ 51)) / 2 ^ 51" .
    have "(2 < round_double d) = (2 ^ 52 < round_even (d * 2 ^ 51))"
      unfolding r by (simp add: pos_less_divide_eq)
    also have "\<dots> = (of_int (2 ^ 52) + 1 / 2 < d * 2 ^ 51)"
      by (rule round_even_gt) simp
    also have "\<dots> = (2 + 1 / 2 ^ 52 < d)"
      by (simp add: field_simps)
    finally show ?thesis .
  next
    case 4
    have "4 * denorm \<le> d * denorm"
      using 4 by simp
    then have "2 ^ 1076 / denorm \<le> round_double d"
      by (intro round_double_ge_pow2) (simp only: four)
    moreover have "2 ^ 1076 / denorm = 4"
      by (simp add: denorm_def)
    moreover have "(2::real) + 1 / 2 ^ 52 < 4"
      by simp
    ultimately show ?thesis
      using 4 by linarith
  qed
qed

text \<open>Integers below 2^53 are doubles.\<close>

lemma round_double_1 [simp]: "round_double 1 = 1"
proof -
  have "round_double 1 = of_int (round_even (1 * denorm / 2 ^ 1022)) * 2 ^ 1022 / denorm"
    by (rule round_double_binade) (simp_all add: denorm_def)
  also have "1 * denorm / 2 ^ 1022 = of_int (2 ^ 52)"
    by (simp add: denorm_def)
  finally show ?thesis
    by (simp only: round_even_of_int) (simp add: denorm_def)
qed

lemma round_double_3 [simp]: "round_double 3 = 3"
proof -
  have "round_double 3 = of_int (round_even (3 * denorm / 2 ^ 1023)) * 2 ^ 1023 / denorm"
    by (rule round_double_binade) (simp_all add: denorm_def)
  also have "3 * denorm / 2 ^ 1023 = of_int (3 * 2 ^ 51)"
    by (simp add: denorm_def)
  finally show ?thesis
    by (simp only: round_even_of_int) (simp add: denorm_def)
qed

section \<open>Properties of the diarization fallback\<close>

lemma speaker_name_values:
  "speaker_name 0 = ''SPEAKER_00''" "speaker_name (Suc 0) = ''SPEAKER_01''"
  by (simp_all add: speaker_name_def str_nat.simps digit_char_def)

lemma speaker_name_01: "speaker_name 0 \<noteq> speaker_name (Suc 0)"
  by (simp add: speaker_name_values)

lemma fallback_loop_length [simp]: "length (fallback_loop c l segs) = length segs"
  by (induction segs arbitrary: c l) (simp_all add: Let_def)

text \<open>The loop changes nothing but the speaker of a segment, and sets it to one of two
  names.\<close>

lemma fallback_loop_nth:
  "c \<le> 1 \<Longrightarrow> i < length segs \<Longrightarrow>
   \<exists>sp. fallback_loop c l segs ! i = (segs ! i)\<lparr>speaker := Some sp\<rparr> \<and>
        (sp = ''SPEAKER_00'' \<or> sp = ''SPEAKER_01'')"
proof (induction segs arbitrary: c l i)
  case Nil
  then show ?case by simp
next
  case (Cons seg rest)
  define c' where "c' = (if round_double (start_of seg - l) > 2 then 1 - c else c)"
  have c': "c' \<le> 1"
    using Cons.prems(1) by (simp add: c'_def)
  then have name: "speaker_name c' = ''SPEAKER_00'' \<or> speaker_name c' = ''SPEAKER_01''"
    using speaker_name_values by (cases c') auto
  have unfold: "fallback_loop c l (seg # rest) =
      seg\<lparr>speaker := Some (speaker_name c')\<rparr> # fallback_loop c' (end_of seg) rest"
    by (simp add: Let_def c'_def)
  show ?case
  proof (cases i)
    case 0
    then show ?thesis
      unfolding unfold using name by auto
  next
    case (Suc k)
    then have "k < length rest"
      using Cons.prems(2) by simp
    then show ?thesis
      unfolding unfold Suc using Cons.IH [OF c', of k "end_of seg"] by simp
  qed
qed

lemma gap_eq: "gap prev seg = start_of seg - end_of prev"
  by (simp add: gap_def start_of_def end_of_def split: option.splits)

text \<open>Two neighbours in the result differ exactly when the gap between them, rounded,
  exceeds two seconds.\<close>

lemma fallback_loop_pairs:
  "c \<le> 1 \<Longrightarrow> 0 < i \<Longrightarrow> i < length segs \<Longrightarrow>
   (speaker (fallback_loop c l segs ! i) \<noteq> speaker (fallback_loop c l segs ! (i - 1))) =
   (round_double (start_of (segs ! i) - end_of (segs ! (i - 1))) > 2)"
proof (induction segs arbitrary: c l i)
  case Nil
  then show ?case by simp
next
  case (Cons seg rest)
  define c' where "c' = (if round_double (start_of seg - l) > 2 then 1 - c else c)"
  have c': "c' \<le> 1"
    using Cons.prems(1) by (simp add: c'_def)
  have unfold: "fallback_loop c l (seg # rest) =
      seg\<lparr>speaker := Some (speaker_name c')\<rparr> # fallback_loop c' (end_of seg) rest"
    by (simp add: Let_def c'_def)
  show ?case
  proof (cases "i = 1")
    case True
    then obtain s2 rest2 where rest: "rest = s2 # rest2"
      using Cons.prems(3) by (cases rest) auto
    have first: "speaker (fallback_loop c l (seg # rest) ! 0) = Some (speaker_name c')"
      unfolding unfold by simp
    have second: "speaker (fallback_loop c l (seg # rest) ! 1) =
        Some (speaker_name (if round_double (start_of s2 - end_of seg) > 2 then 1 - c' else c'))"
    proof -
      have "fallback_loop c l (seg # rest) ! 1 = fallback_loop c' (end_of seg) rest ! 0"
        unfolding unfold by simp
      then show ?thesis
        by (simp add: rest Let_def)
    qed
    have "c' = 0 \<or> c' = 1"
      using c' by auto
    then have "(speaker_name (if round_double (start_of s2 - end_of seg) > 2 then 1 - c' else c') \<noteq>
                speaker_name c') = (round_double (start_of s2 - end_of seg) > 2)"
      using speaker_name_01 by auto
    then show ?thesis
      using True first second rest by simp
  next
    case False
    then obtain k where i: "i = Suc k" "0 < k" "k < length rest"
      using Cons.prems(2,3) by (cases i) auto
    have "(speaker (fallback_loop c' (end_of seg) rest ! k) \<noteq>
           speaker (fallback_loop c' (end_of seg) rest ! (k - 1))) =
          (round_double (start_of (rest ! k) - end_of (rest ! (k - 1))) > 2)"
      using Cons.IH [OF c' i(2,3)] .
    then show ?thesis
      using i unfolding unfold by (cases k) simp_all
  qed
qed

lemma fallback_loop_first:
  "segs \<noteq> [] \<Longrightarrow>
   speaker (fallback_loop 0 0 segs ! 0) =
     Some (if round_double (start_of (segs ! 0)) > 2 then ''SPEAKER_01'' else ''SPEAKER_00'')"
  by (cases segs) (simp_all add: Let_def speaker_name_values)

text \<open>The result that reaches the diarization block.\<close>

lemma align_block_result:
  assumes "(align_result env = Aligned r1 \<and> language r \<noteq> None \<and> segments r \<noteq> None) \<or>
           (r1 = r \<and> (\<forall>a. align_result env \<noteq> Aligned a))"
  shows "snd (align_block env r) = r1"
  using assms by (auto simp add: align_block_def split: option.splits align_outcome.splits)

text \<open>
  Claim C5, as the code has it. On a transcript of more than one segment the fallback
  changes nothing but the speaker of each segment, which becomes \<open>SPEAKER_00\<close> or
  \<open>SPEAKER_01\<close>. The first segment is \<open>SPEAKER_01\<close> when it starts more than
  \<^verbatim>\<open>2 + 2^-52\<close> seconds after time 0, and a later segment gets another identity than
  its predecessor exactly when its gap exceeds \<^verbatim>\<open>2 + 2^-52\<close> seconds: that is when
  the gap computed in floating point exceeds 2.0. A transcript of one segment gets
  \<open>SPEAKER_00\<close>. This is what \<open>run_whisperx_transcription\<close> returns when the
  engine transcribed and the diarization block failed: the result \<open>r1\<close> that
  reached the block, which is the aligned result or, if the alignment failed, the
  transcribed one, with the speakers of the fallback.
\<close>

theorem fallback_alternates_on_gaps:
  "(length segs > 1 \<longrightarrow>
      length (fallback_speakers segs) = length segs \<and>
      (\<forall>i. i < length segs \<longrightarrow>
         (\<exists>sp. fallback_speakers segs ! i = (segs ! i)\<lparr>speaker := Some sp\<rparr> \<and>
               (sp = ''SPEAKER_00'' \<or> sp = ''SPEAKER_01''))) \<and>
      speaker (fallback_speakers segs ! 0) =
        Some (if 2 + 1 / 2 ^ 52 < (case seg_start (segs ! 0) of None \<Rightarrow> 0 | Some s \<Rightarrow> s)
              then ''SPEAKER_01'' else ''SPEAKER_00'') \<and>
      (\<forall>i. 0 < i \<and> i < length segs \<longrightarrow>
         (speaker (fallback_speakers segs ! i) \<noteq> speaker (fallback_speakers segs ! (i - 1))) =
         (2 + 1 / 2 ^ 52 < gap (segs ! (i - 1)) (segs ! i)))) \<and>
   (length segs = 1 \<longrightarrow>
      fallback_speakers segs = [(segs ! 0)\<lparr>speaker := Some ''SPEAKER_00''\<rparr>]) \<and>
   (import_ok env \<and> load_model_ok env \<and> transcribe_result env = Some r \<and>
    ((align_result env = Aligned r1 \<and> language r \<noteq> None \<and> segments r \<noteq> None) \<or>
     (r1 = r \<and> (\<forall>a. align_result env \<noteq> Aligned a))) \<and>
    segments r1 = Some segs \<and>
    (\<forall>n r2. diarize_result env \<noteq> Diarized n r2) \<and>
    \<not> check_job_cancelled w job_id \<and> fs w wav_path \<noteq> None \<longrightarrow>
      (\<exists>w'. run_whisperx_transcription env w wav_path job_id =
              Return (r1\<lparr>segments := Some (fallback_speakers segs)\<rparr>) w'))"
proof -
  have nth: "\<exists>sp. fallback_loop 0 0 segs ! i = (segs ! i)\<lparr>speaker := Some sp\<rparr> \<and>
      (sp = ''SPEAKER_00'' \<or> sp = ''SPEAKER_01'')" if "i < length segs" for i
    using fallback_loop_nth [of 0 i segs 0] that by simp
  have first: "speaker (fallback_loop 0 0 segs ! 0) =
      Some (if 2 + 1 / 2 ^ 52 < (case seg_start (segs ! 0) of None \<Rightarrow> 0 | Some s \<Rightarrow> s)
            then ''SPEAKER_01'' else ''SPEAKER_00'')" if "length segs > 1"
  proof -
    have "segs \<noteq> []"
      using that by auto
    then have "speaker (fallback_loop 0 0 segs ! 0) =
        Some (if round_double (start_of (segs ! 0)) > 2 then ''SPEAKER_01'' else ''SPEAKER_00'')"
      by (rule fallback_loop_first)
    then show ?thesis
      by (simp only: round_double_gt_2 start_of_def)
  qed
  have pairs: "(speaker (fallback_loop 0 0 segs ! i) \<noteq> speaker (fallback_loop 0 0 segs ! (i - 1))) =
        (2 + 1 / 2 ^ 52 < gap (segs ! (i - 1)) (segs ! i))"
    if "0 < i" "i < length segs" for i
    using fallback_loop_pairs [of 0 i segs 0] that
    by (simp only: round_double_gt_2 gap_eq)
  have single: "fallback_speakers segs = [(segs ! 0)\<lparr>speaker := Some ''SPEAKER_00''\<rparr>]"
    if "length segs = 1"
    using that by (cases segs) (simp_all add: fallback_speakers_def)
  have handler: "\<exists>w'. run_whisperx_transcription env w wav_path job_id =
              Return (r1\<lparr>segments := Some (fallback_speakers segs)\<rparr>) w'"
    if "import_ok env" "load_model_ok env" "transcribe_result env = Some r"
      "(align_result env = Aligned r1 \<and> language r \<noteq> None \<and> segments r \<noteq> None) \<or>
       (r1 = r \<and> (\<forall>a. align_result env \<noteq> Aligned a))"
      "segments r1 = Some segs" "\<forall>n r2. diarize_result env \<noteq> Diarized n r2"
      "\<not> check_job_cancelled w job_id" "fs w wav_path \<noteq> None"
  proof -
    have r1: "snd (align_block env r) = r1"
      using that(4) by (rule align_block_result)
    have fb: "apply_fallback r1 = r1\<lparr>segments := Some (fallback_speakers segs)\<rparr>"
      using that(5) by (simp add: apply_fallback_def)
    have "\<exists>w'. run_whisperx_transcription_try env w wav_path job_id =
              Return (r1\<lparr>segments := Some (fallback_speakers segs)\<rparr>) w'"
      unfolding run_whisperx_transcription_try_def Let_def
      using that(1,2,3,6,7,8) r1 fb
      by (cases "diarize_result env") (simp_all del: not_None_eq)
    then show ?thesis
      by (auto simp add: run_whisperx_transcription_def)
  qed
  from nth first pairs single handler show ?thesis
    by (simp add: fallback_speakers_def)
qed


text \<open>Scenario C. Of three segments from 0 to 3, from 4 to 5 and from 8 to 9 seconds, the
  second follows after a gap of one second and keeps the identity of the first, the third
  follows after a gap of three seconds and gets the other one. A first segment that starts
  at 5 seconds is \<open>SPEAKER_01\<close>, and as it has no end, the gap before the next segment
  is counted from its start. A single segment is \<open>SPEAKER_00\<close>. A run whose
  diarization fails returns two segments 3 seconds apart with different identities and two
  segments 1 second apart with the same.\<close>

theorem fallback_alternates_on_gaps_witness:
  "gap (seg_at 0 3) (seg_at 4 5) = 1 \<and> gap (seg_at 4 5) (seg_at 8 9) = 3 \<and>
   fallback_speakers [seg_at 0 3, seg_at 4 5, seg_at 8 9] =
     [(seg_at 0 3)\<lparr>speaker := Some ''SPEAKER_00''\<rparr>,
      (seg_at 4 5)\<lparr>speaker := Some ''SPEAKER_00''\<rparr>,
      (seg_at 8 9)\<lparr>speaker := Some ''SPEAKER_01''\<rparr>] \<and>
   speaker (fallback_speakers [seg_at 0 3, seg_at 4 5, seg_at 8 9] ! 1) =
     speaker (fallback_speakers [seg_at 0 3, seg_at 4 5, seg_at 8 9] ! 0) \<and>
   speaker (fallback_speakers [seg_at 0 3, seg_at 4 5, seg_at 8 9] ! 2) \<noteq>
     speaker (fallback_speakers [seg_at 0 3, seg_at 4 5, seg_at 8 9] ! 1) \<and>
   map speaker (fallback_speakers [(seg_at 5 6)\<lparr>seg_end := None\<rparr>, seg_at 6 7, seg_at 10 11]) =
     [Some ''SPEAKER_01'', Some ''SPEAKER_01'', Some ''SPEAKER_00''] \<and>
   fallback_speakers [seg_at 0 1] = [(seg_at 0 1)\<lparr>speaker := Some ''SPEAKER_00''\<rparr>] \<and>
   (case run_whisperx_transcription (env_no_diarization [seg_at 0 1, seg_at 4 5]) w_converted
           ''tmp/j1_converted.wav'' ''j1'' of
      Raise e w' \<Rightarrow> False
    | Return result w' \<Rightarrow>
        result = transcript_of [(seg_at 0 1)\<lparr>speaker := Some ''SPEAKER_00''\<rparr>,
                                (seg_at 4 5)\<lparr>speaker := Some ''SPEAKER_01''\<rparr>]) \<and>
   (case run_whisperx_transcription (env_no_diarization [seg_at 0 3, seg_at 4 5]) w_converted
           ''tmp/j1_converted.wav'' ''j1'' of
      Raise e w' \<Rightarrow> False
    | Return result w' \<Rightarrow>
        result = transcript_of [(seg_at 0 3)\<lparr>speaker := Some ''SPEAKER_00''\<rparr>,
                                (seg_at 4 5)\<lparr>speaker := Some ''SPEAKER_00''\<rparr>])"
proof -
  let ?segs = "[seg_at 0 3, seg_at 4 5, seg_at 8 9]"
  note th = fallback_alternates_on_gaps
  have len: "length ?segs > 1"
    by simp
  have gaps: "gap (?segs ! 0) (?segs ! 1) = 1" "gap (?segs ! 1) (?segs ! 2) = 3"
    by (simp_all add: gap_def seg_at_def)
  have vals: "fallback_speakers ?segs =
     [(seg_at 0 3)\<lparr>speaker := Some ''SPEAKER_00''\<rparr>,
      (seg_at 4 5)\<lparr>speaker := Some ''SPEAKER_00''\<rparr>,
      (seg_at 8 9)\<lparr>speaker := Some ''SPEAKER_01''\<rparr>]"
    by (simp add: fallback_speakers_def seg_at_def start_of_def end_of_def Let_def
        speaker_name_values round_double_gt_2)
  from th [of ?segs] len
  have pairs: "\<forall>i. 0 < i \<and> i < length ?segs \<longrightarrow>
      (speaker (fallback_speakers ?segs ! i) \<noteq> speaker (fallback_speakers ?segs ! (i - 1))) =
      (2 + 1 / 2 ^ 52 < gap (?segs ! (i - 1)) (?segs ! i))"
    by blast
  have keep: "speaker (fallback_speakers ?segs ! 1) = speaker (fallback_speakers ?segs ! 0)"
    using spec [OF pairs, of 1] gaps by simp
  have toggle: "speaker (fallback_speakers ?segs ! 2) \<noteq> speaker (fallback_speakers ?segs ! 1)"
    using spec [OF pairs, of 2] gaps by simp
  have late: "map speaker (fallback_speakers [(seg_at 5 6)\<lparr>seg_end := None\<rparr>, seg_at 6 7, seg_at 10 11]) =
     [Some ''SPEAKER_01'', Some ''SPEAKER_01'', Some ''SPEAKER_00'']"
    by (simp add: fallback_speakers_def seg_at_def start_of_def end_of_def Let_def
        speaker_name_values round_double_gt_2)
  have single: "fallback_speakers [seg_at 0 1] = [(seg_at 0 1)\<lparr>speaker := Some ''SPEAKER_00''\<rparr>]"
    using th [of "[seg_at 0 1]"] by simp
  have live: "\<not> check_job_cancelled w_converted ''j1''"
    "fs w_converted ''tmp/j1_converted.wav'' \<noteq> None"
    by (simp_all add: w_converted_def w0_def check_job_cancelled_def)
  have run: "\<exists>w'. run_whisperx_transcription (env_no_diarization segs) w_converted
          ''tmp/j1_converted.wav'' ''j1'' =
        Return (transcript_of segs\<lparr>segments := Some (fallback_speakers segs)\<rparr>) w'" for segs
    using th [of segs "env_no_diarization segs" "transcript_of segs" "transcript_of segs"
        w_converted "''j1''" "''tmp/j1_converted.wav''"] live
    by (simp add: env_no_diarization_def transcript_of_def)
  have three: "fallback_speakers [seg_at 0 1, seg_at 4 5] =
      [(seg_at 0 1)\<lparr>speaker := Some ''SPEAKER_00''\<rparr>, (seg_at 4 5)\<lparr>speaker := Some ''SPEAKER_01''\<rparr>]"
    by (simp add: fallback_speakers_def seg_at_def start_of_def end_of_def Let_def
        speaker_name_values round_double_gt_2)
  have one: "fallback_speakers [seg_at 0 3, seg_at 4 5] =
      [(seg_at 0 3)\<lparr>speaker := Some ''SPEAKER_00''\<rparr>, (seg_at 4 5)\<lparr>speaker := Some ''SPEAKER_00''\<rparr>]"
    by (simp add: fallback_speakers_def seg_at_def start_of_def end_of_def Let_def
        speaker_name_values round_double_gt_2)
  have run3: "case run_whisperx_transcription (env_no_diarization [seg_at 0 1, seg_at 4 5]) w_converted
           ''tmp/j1_converted.wav'' ''j1'' of
      Raise e w' \<Rightarrow> False
    | Return result w' \<Rightarrow>
        result = transcript_of [(seg_at 0 1)\<lparr>speaker := Some ''SPEAKER_00''\<rparr>,
                                (seg_at 4 5)\<lparr>speaker := Some ''SPEAKER_01''\<rparr>]"
    using run [of "[seg_at 0 1, seg_at 4 5]"] unfolding three
    by (auto simp add: transcript_of_def)
  have run1: "case run_whisperx_transcription (env_no_diarization [seg_at 0 3, seg_at 4 5]) w_converted
           ''tmp/j1_converted.wav'' ''j1'' of
      Raise e w' \<Rightarrow> False
    | Return result w' \<Rightarrow>
        result = transcript_of [(seg_at 0 3)\<lparr>speaker := Some ''SPEAKER_00''\<rparr>,
                                (seg_at 4 5)\<lparr>speaker := Some ''SPEAKER_00''\<rparr>]"
    using run [of "[seg_at 0 3, seg_at 4 5]"] unfolding one
    by (auto simp add: transcript_of_def)
  from gaps vals keep toggle late single run3 run1 show ?thesis
    by simp
qed

text \<open>Against the claim as stated: a segment that ends at the double 0.1 and a segment
  that starts at the double 2.1 are more than 2.0 seconds apart, and get the same identity,
  because the difference of the two doubles rounds to 2.0.\<close>

theorem fallback_keeps_speaker_over_gap_counterexample:
  "round_double double_0_1 = double_0_1 \<and> round_double double_2_1 = double_2_1 \<and>
   \<bar>double_0_1 - 0.1\<bar> < 1 / 2 ^ 57 \<and> \<bar>double_2_1 - 2.1\<bar> < 1 / 2 ^ 52 \<and>
   gap (seg_at 0 double_0_1) (seg_at double_2_1 3) > 2.0 \<and>
   round_double (gap (seg_at 0 double_0_1) (seg_at double_2_1 3)) = 2.0 \<and>
   map speaker (fallback_speakers [seg_at 0 double_0_1, seg_at double_2_1 3]) =
     [Some ''SPEAKER_00'', Some ''SPEAKER_00'']"
proof -
  have a: "round_double double_0_1 = double_0_1"
  proof -
    have "round_double double_0_1 =
        of_int (round_even (double_0_1 * denorm / 2 ^ 1018)) * 2 ^ 1018 / denorm"
      by (rule round_double_binade) (simp_all add: denorm_def double_0_1_def)
    also have "double_0_1 * denorm / 2 ^ 1018 = of_int 7205759403792794"
      by (simp add: denorm_def double_0_1_def)
    finally show ?thesis
      by (simp only: round_even_of_int) (simp add: denorm_def double_0_1_def)
  qed
  have b: "round_double double_2_1 = double_2_1"
  proof -
    have "round_double double_2_1 =
        of_int (round_even (double_2_1 * denorm / 2 ^ 1023)) * 2 ^ 1023 / denorm"
      by (rule round_double_binade) (simp_all add: denorm_def double_2_1_def)
    also have "double_2_1 * denorm / 2 ^ 1023 = of_int 4728779608739021"
      by (simp add: denorm_def double_2_1_def)
    finally show ?thesis
      by (simp only: round_even_of_int) (simp add: denorm_def double_2_1_def)
  qed
  have near: "\<bar>double_0_1 - 0.1\<bar> < 1 / 2 ^ 57" "\<bar>double_2_1 - 2.1\<bar> < 1 / 2 ^ 52"
    by (simp_all add: double_0_1_def double_2_1_def)
  have g: "gap (seg_at 0 double_0_1) (seg_at double_2_1 3) = 2 + 3 / 2 ^ 55"
    by (simp add: gap_def seg_at_def double_0_1_def double_2_1_def)
  have r: "round_double (2 + 3 / 2 ^ 55) = 2"
  proof -
    have "round_double (2 + 3 / 2 ^ 55) =
        of_int (round_even ((2 + 3 / 2 ^ 55) * denorm / 2 ^ 1023)) * 2 ^ 1023 / denorm"
      by (rule round_double_binade) (simp_all add: denorm_def)
    also have "(2 + 3 / 2 ^ 55) * denorm / 2 ^ 1023 = of_int (2 ^ 52) + 3 / 16"
      by (simp add: denorm_def)
    also have "round_even (of_int (2 ^ 52) + 3 / 16) = 2 ^ 52"
      unfolding round_even_def Let_def by (simp add: floor_add_int [symmetric] del: of_int_power)
    finally show ?thesis
      by (simp add: denorm_def)
  qed
  have vals: "map speaker (fallback_speakers [seg_at 0 double_0_1, seg_at double_2_1 3]) =
     [Some ''SPEAKER_00'', Some ''SPEAKER_00'']"
    by (simp add: fallback_speakers_def seg_at_def start_of_def end_of_def Let_def
        speaker_name_values round_double_gt_2 double_0_1_def double_2_1_def)
  show ?thesis
    using a b near vals r unfolding g by simp
qed

section \<open>Properties of the label update\<close>

lemma rev_dropWhile_rev_take:
  "rev (dropWhile P (rev t)) = take (length t - length (takeWhile P (rev t))) t"
  by (simp add: dropWhile_eq_drop rev_drop)

lemma dropWhile_rev_dropWhile:
  "dropWhile P (rev (dropWhile P (rev (dropWhile P s)))) = rev (dropWhile P (rev (dropWhile P s)))"
proof -
  let ?t = "dropWhile P s"
  let ?u = "dropWhile P (rev ?t)"
  obtain m where m: "rev ?u = take m ?t"
    using rev_dropWhile_rev_take [of P ?t] by blast
  show ?thesis
  proof (cases "rev ?u = []")
    case True
    then have u: "?u = []"
      by (simp only: rev_is_Nil_conv)
    show ?thesis
      unfolding u by simp
  next
    case False
    then have "0 < m" "?t \<noteq> []"
      using m by auto
    then have "hd (rev ?u) = hd ?t"
      using m by simp
    moreover have "\<not> P (hd ?t)"
      using \<open>?t \<noteq> []\<close> by (rule hd_dropWhile)
    ultimately have "\<not> P (hd (rev ?u))"
      by simp
    then show ?thesis
      using False by (cases "rev ?u") simp_all
  qed
qed

lemma strip_idem [simp]: "strip (strip s) = strip s"
  by (simp add: strip_def dropWhile_rev_dropWhile)

lemma strip_Nil [simp]: "strip [] = []"
  by (simp add: strip_def)

text \<open>The class of \<^verbatim>\<open>clean_speaker_label\<close> by code points.\<close>

lemma char_eq_code:
  "(c = CHR ''-'') = (of_char c = (45::nat))" "(c = CHR ''_'') = (of_char c = (95::nat))"
  "(c = CHR 0x00) = (of_char c = (0::nat))"
proof -
  have "(of_char c = (of_char CHR ''-'' :: nat)) = (c = CHR ''-'')"
    by (rule of_char_eq_iff)
  then show "(c = CHR ''-'') = (of_char c = (45::nat))"
    by simp
  have "(of_char c = (of_char CHR ''_'' :: nat)) = (c = CHR ''_'')"
    by (rule of_char_eq_iff)
  then show "(c = CHR ''_'') = (of_char c = (95::nat))"
    by simp
  have "(of_char c = (of_char (CHR 0x00) :: nat)) = (c = CHR 0x00)"
    by (rule of_char_eq_iff)
  then show "(c = CHR 0x00) = (of_char c = (0::nat))"
    by simp
qed

lemma label_char_ok_code:
  "label_char_ok c =
     ((of_char c :: nat) \<in> {97..122} \<union> {65..90} \<union> {48..57} \<union> {45, 95} \<union>
                            {9..13} \<union> {28..32} \<union> {133, 160})"
  unfolding label_char_ok_def is_space_def Let_def char_eq_code by auto

lemma valid_label_chars: "valid_label l = (length l \<le> 100 \<and> list_all label_char_ok l)"
  unfolding valid_label_def label_char_ok_code ..

lemma valid_label_no_null: "valid_label l \<Longrightarrow> CHR 0x00 \<notin> set l"
  unfolding valid_label_def list_all_iff char_eq_code by auto

lemma label_errors_valid:
  "(speaker_label_errors (strip lbl) = []) = valid_label (strip lbl)"
proof (cases "strip lbl = []")
  case True
  then show ?thesis
    by (simp add: speaker_label_errors_def valid_label_def)
next
  case False
  show ?thesis
    using False valid_label_no_null [of "strip lbl"]
    by (auto simp add: speaker_label_errors_def run_validators_def valid_label_chars Let_def)
qed

lemma id_errors_valid:
  "(speaker_id_errors (Some sid) = []) =
   (strip sid \<noteq> [] \<and> length (strip sid) \<le> 50 \<and> CHR 0x00 \<notin> set (strip sid))"
  by (auto simp add: speaker_id_errors_def run_validators_def)


text \<open>
  Claim C9, as the code has it. The view \<open>update_speaker_name\<close> validates before it
  writes. When it answers with success, the label was a string or absent and, stripped,
  has at most 100 characters of the permitted class; the speaker id, stripped, has between
  1 and 50 characters and no null character; a track of that job and speaker existed, and
  it now carries the stripped label. On such an id and label the answer depends on the
  rows only: success with the label written if the job and a track for the speaker id
  exist, whatever the status of the job, and the failure
  \<^verbatim>\<open>Failed to update speaker name\<close> with nothing written otherwise; there is no
  separate answer for a missing track. A label that is longer than 100 characters after
  stripping is answered with the form's length error and nothing is written, and so is a
  label that is not a string with the failure \<^verbatim>\<open>An unexpected error occurred\<close>.
  \<open>update_speaker_label\<close> returns \<open>False\<close> and writes nothing when the job has no
  track for the speaker id, and succeeds whenever the job and the track exist.
\<close>

theorem update_speaker_name_validates_then_writes:
  "(fst (update_speaker_name w job_id (Some (Some sid, field))) = JsonSuccess \<longrightarrow>
      (\<exists>l. (field = Text l \<or> field = Absent \<and> l = []) \<and>
         valid_label (strip l) \<and>
         strip sid \<noteq> [] \<and> length (strip sid) \<le> 50 \<and> CHR 0x00 \<notin> set (strip sid) \<and>
         (\<exists>track. db_tracks w (job_id, sid) = Some track \<and>
            db_tracks (snd (update_speaker_name w job_id (Some (Some sid, field)))) (job_id, sid) =
              Some (track\<lparr>speaker_label := strip l\<rparr>)))) \<and>
   (strip sid \<noteq> [] \<and> length (strip sid) \<le> 50 \<and> CHR 0x00 \<notin> set (strip sid) \<and>
    valid_label (strip lbl) \<longrightarrow>
      update_speaker_name w job_id (Some (Some sid, Text lbl)) =
        (case (db_jobs w job_id, db_tracks w (job_id, sid)) of
           (Some job, Some track) \<Rightarrow>
             (JsonSuccess,
              w\<lparr>db_tracks := (db_tracks w)((job_id, sid) \<mapsto> track\<lparr>speaker_label := strip lbl\<rparr>)\<rparr>)
         | _ \<Rightarrow> (JsonFailure ''Failed to update speaker name'', w))) \<and>
   (length (strip lbl) > 100 \<longrightarrow>
      update_speaker_name w job_id (Some (sid_field, Text lbl)) =
        (JsonErrors (speaker_id_errors sid_field @
                     max_length_error 100 (length (strip lbl)) #
                     (if CHR 0x00 \<in> set (strip lbl)
                      then [''Null characters are not allowed.''] else [])), w)) \<and>
   update_speaker_name w job_id (Some (sid_field, NotText)) =
     (JsonFailure ''An unexpected error occurred'', w) \<and>
   (db_tracks w (job_id, sid) = None \<longrightarrow>
      update_speaker_label w job_id sid lbl = (False, w)) \<and>
   (db_jobs w job_id \<noteq> None \<and> db_tracks w (job_id, sid) \<noteq> None \<longrightarrow>
      fst (update_speaker_label w job_id sid lbl) = True)"
proof -
  have success: "\<exists>l. (field = Text l \<or> field = Absent \<and> l = []) \<and>
         valid_label (strip l) \<and>
         strip sid \<noteq> [] \<and> length (strip sid) \<le> 50 \<and> CHR 0x00 \<notin> set (strip sid) \<and>
         (\<exists>track. db_tracks w (job_id, sid) = Some track \<and>
            db_tracks (snd (update_speaker_name w job_id (Some (Some sid, field)))) (job_id, sid) =
              Some (track\<lparr>speaker_label := strip l\<rparr>))"
    if ok: "fst (update_speaker_name w job_id (Some (Some sid, field))) = JsonSuccess"
  proof -
    obtain l where l: "field = Text l \<or> field = Absent \<and> l = []"
      and get: "get_label field = Some (strip l)"
      using ok by (cases field) (simp_all add: update_speaker_name_def get_label_def)
    have noerr: "speaker_id_errors (Some sid) = []" "speaker_label_errors (strip l) = []"
      using ok get
      by (auto simp add: update_speaker_name_def Let_def split: if_splits prod.splits bool.splits)
    have "\<exists>track. db_tracks w (job_id, sid) = Some track \<and>
         db_tracks (snd (update_speaker_name w job_id (Some (Some sid, field)))) (job_id, sid) =
           Some (track\<lparr>speaker_label := strip l\<rparr>)"
      using ok noerr get
      by (auto simp add: update_speaker_name_def update_speaker_label_def Let_def
          split: option.splits)
    then show ?thesis
      using l noerr unfolding label_errors_valid id_errors_valid by blast
  qed
  have valid: "update_speaker_name w job_id (Some (Some sid, Text lbl)) =
        (case (db_jobs w job_id, db_tracks w (job_id, sid)) of
           (Some job, Some track) \<Rightarrow>
             (JsonSuccess,
              w\<lparr>db_tracks := (db_tracks w)((job_id, sid) \<mapsto> track\<lparr>speaker_label := strip lbl\<rparr>)\<rparr>)
         | _ \<Rightarrow> (JsonFailure ''Failed to update speaker name'', w))"
    if "strip sid \<noteq> [] \<and> length (strip sid) \<le> 50 \<and> CHR 0x00 \<notin> set (strip sid) \<and>
        valid_label (strip lbl)"
  proof -
    have noerr: "speaker_id_errors (Some sid) = []" "speaker_label_errors (strip lbl) = []"
      using that unfolding label_errors_valid id_errors_valid by simp_all
    then show ?thesis
      by (simp add: update_speaker_name_def get_label_def update_speaker_label_def
          split: option.splits)
  qed
  have too_long: "update_speaker_name w job_id (Some (sid_field, Text lbl)) =
        (JsonErrors (speaker_id_errors sid_field @
                     max_length_error 100 (length (strip lbl)) #
                     (if CHR 0x00 \<in> set (strip lbl)
                      then [''Null characters are not allowed.''] else [])), w)"
    if "length (strip lbl) > 100"
  proof -
    have "strip lbl \<noteq> []"
      using that by auto
    then have "speaker_label_errors (strip lbl) =
        max_length_error 100 (length (strip lbl)) #
        (if CHR 0x00 \<in> set (strip lbl) then [''Null characters are not allowed.''] else [])"
      using that by (simp add: speaker_label_errors_def run_validators_def)
    then show ?thesis
      by (simp add: update_speaker_name_def get_label_def Let_def split: option.splits)
  qed
  have not_text: "update_speaker_name w job_id (Some (sid_field, NotText)) =
     (JsonFailure ''An unexpected error occurred'', w)"
    by (simp add: update_speaker_name_def get_label_def)
  have unseen: "update_speaker_label w job_id sid lbl = (False, w)"
    if "db_tracks w (job_id, sid) = None"
    using that by (simp add: update_speaker_label_def split: option.splits)
  have any_status: "fst (update_speaker_label w job_id sid lbl) = True"
    if "db_jobs w job_id \<noteq> None \<and> db_tracks w (job_id, sid) \<noteq> None"
    using that by (auto simp add: update_speaker_label_def split: option.splits)
  from success valid too_long not_text unseen any_status show ?thesis
    by blast
qed


text \<open>Scenario D on a completed job. A label with spaces around it is written stripped; a
  label with a no-break space inside is valid and written; a label of 101 letters is a
  validation error; a label of 101 no-break spaces is stripped to the empty label, which is
  valid and written; a label that is \<^verbatim>\<open>null\<close> is an unexpected error; a speaker id
  with a null character is a validation error; an unseen speaker id makes
  \<open>update_speaker_label\<close> return \<open>False\<close>.\<close>

theorem update_speaker_name_validates_then_writes_witness:
  "update_speaker_name w_completed ''j1'' (Some (Some ''SPEAKER_00'', Text '' Alice B ''))
     = (JsonSuccess,
        w_completed\<lparr>db_tracks := [(''j1'', ''SPEAKER_00'') \<mapsto> track0\<lparr>speaker_label := ''Alice B''\<rparr>]\<rparr>) \<and>
   valid_label ''Alice B'' \<and>
   update_speaker_name w_completed ''j1''
       (Some (Some ''SPEAKER_00'', Text (''Alice'' @ [CHR 0xA0] @ ''B'')))
     = (JsonSuccess,
        w_completed\<lparr>db_tracks := [(''j1'', ''SPEAKER_00'') \<mapsto>
                        track0\<lparr>speaker_label := ''Alice'' @ [CHR 0xA0] @ ''B''\<rparr>]\<rparr>) \<and>
   update_speaker_name w_completed ''j1'' (Some (Some ''SPEAKER_00'', Text (replicate 101 CHR ''a'')))
     = (JsonErrors [''Ensure this value has at most 100 characters (it has 101).''], w_completed) \<and>
   update_speaker_name w_completed ''j1'' (Some (Some ''SPEAKER_00'', Text (replicate 101 (CHR 0xA0))))
     = (JsonSuccess,
        w_completed\<lparr>db_tracks := [(''j1'', ''SPEAKER_00'') \<mapsto> track0\<lparr>speaker_label := []\<rparr>]\<rparr>) \<and>
   update_speaker_name w_completed ''j1'' (Some (Some ''SPEAKER_00'', NotText))
     = (JsonFailure ''An unexpected error occurred'', w_completed) \<and>
   update_speaker_name w_completed ''j1'' (Some (Some (''SPEAKER'' @ [CHR 0x00]), Text ''Alice''))
     = (JsonErrors [''Null characters are not allowed.''], w_completed) \<and>
   update_speaker_label w_completed ''j1'' ''SPEAKER_07'' ''Alice B'' = (False, w_completed)"
proof -
  note th = update_speaker_name_validates_then_writes
  have sid: "strip ''SPEAKER_00'' = ''SPEAKER_00''"
    by (simp add: strip_def is_space_def)
  have rows: "db_jobs w_completed ''j1'' = Some job_done"
    "db_tracks w_completed (''j1'', ''SPEAKER_00'') = Some track0"
    "db_tracks w_completed (''j1'', ''SPEAKER_07'') = None"
    by (simp_all add: w_completed_def w0_def)
  have upd: "w_completed\<lparr>db_tracks := (db_tracks w_completed)((''j1'', ''SPEAKER_00'') \<mapsto> t)\<rparr> =
      w_completed\<lparr>db_tracks := [(''j1'', ''SPEAKER_00'') \<mapsto> t]\<rparr>" for t
    by (simp add: w_completed_def w0_def)
  have strip1: "strip '' Alice B '' = ''Alice B''"
    by (simp add: strip_def is_space_def)
  have v1: "valid_label ''Alice B''"
    by (simp add: valid_label_def)
  have run1: "update_speaker_name w_completed ''j1'' (Some (Some ''SPEAKER_00'', Text '' Alice B ''))
     = (JsonSuccess,
        w_completed\<lparr>db_tracks := [(''j1'', ''SPEAKER_00'') \<mapsto> track0\<lparr>speaker_label := ''Alice B''\<rparr>]\<rparr>)"
    using th [of w_completed "''j1''" "''SPEAKER_00''" Absent "'' Alice B ''"] v1
    unfolding sid strip1 rows by (simp add: upd)
  have strip2: "strip (''Alice'' @ [CHR 0xA0] @ ''B'') = ''Alice'' @ [CHR 0xA0] @ ''B''"
    by (simp add: strip_def is_space_def)
  have v2: "valid_label (''Alice'' @ [CHR 0xA0] @ ''B'')"
    by (simp add: valid_label_def)
  have run2: "update_speaker_name w_completed ''j1''
       (Some (Some ''SPEAKER_00'', Text (''Alice'' @ [CHR 0xA0] @ ''B'')))
     = (JsonSuccess,
        w_completed\<lparr>db_tracks := [(''j1'', ''SPEAKER_00'') \<mapsto>
                        track0\<lparr>speaker_label := ''Alice'' @ [CHR 0xA0] @ ''B''\<rparr>]\<rparr>)"
    using th [of w_completed "''j1''" "''SPEAKER_00''" Absent "''Alice'' @ [CHR 0xA0] @ ''B''"] v2
    unfolding sid strip2 rows by (simp add: upd)
  have strip3: "strip (replicate 101 CHR ''a'') = replicate 101 CHR ''a''"
    by (simp add: strip_def is_space_def)
  have ids: "speaker_id_errors (Some ''SPEAKER_00'') = []"
    unfolding id_errors_valid sid by simp
  have msg: "max_length_error 100 101 = ''Ensure this value has at most 100 characters (it has 101).''"
    by (simp add: max_length_error_def str_nat.simps digit_char_def)
  have run3: "update_speaker_name w_completed ''j1'' (Some (Some ''SPEAKER_00'', Text (replicate 101 CHR ''a'')))
     = (JsonErrors [''Ensure this value has at most 100 characters (it has 101).''], w_completed)"
    using th [of w_completed "''j1''" "''SPEAKER_00''" Absent "replicate 101 CHR ''a''" "Some ''SPEAKER_00''"]
    unfolding strip3 by (simp add: ids msg)
  have strip4: "strip (replicate 101 (CHR 0xA0)) = []"
    by (simp add: strip_def is_space_def)
  have run4: "update_speaker_name w_completed ''j1'' (Some (Some ''SPEAKER_00'', Text (replicate 101 (CHR 0xA0))))
     = (JsonSuccess,
        w_completed\<lparr>db_tracks := [(''j1'', ''SPEAKER_00'') \<mapsto> track0\<lparr>speaker_label := []\<rparr>]\<rparr>)"
    using th [of w_completed "''j1''" "''SPEAKER_00''" Absent "replicate 101 (CHR 0xA0)"]
    unfolding sid strip4 rows by (simp add: upd valid_label_def)
  have run5: "update_speaker_name w_completed ''j1'' (Some (Some ''SPEAKER_00'', NotText))
     = (JsonFailure ''An unexpected error occurred'', w_completed)"
    using th [of w_completed "''j1''" "''SPEAKER_00''" Absent "[]" "Some ''SPEAKER_00''"] by blast
  have run6: "update_speaker_name w_completed ''j1'' (Some (Some (''SPEAKER'' @ [CHR 0x00]), Text ''Alice''))
     = (JsonErrors [''Null characters are not allowed.''], w_completed)"
    by (simp add: update_speaker_name_def get_label_def speaker_id_errors_def
        speaker_label_errors_def run_validators_def strip_def is_space_def label_char_ok_def
        Let_def)
  have nf: "update_speaker_label w_completed ''j1'' ''SPEAKER_07'' ''Alice B'' = (False, w_completed)"
    using th [of w_completed "''j1''" "''SPEAKER_07''" Absent "''Alice B''"] rows(3) by blast
  from run1 v1 run2 run3 run4 run5 run6 nf show ?thesis
    by blast
qed

text \<open>Against the claim as stated: the label of a track is updated although the job is
  \<open>failed\<close>, and on a completed job an unseen speaker id gets the same answer as any
  other failure of the update.\<close>

theorem label_update_on_failed_job_counterexample:
  "map_option job_status (db_jobs w_failed_tracks ''j1'') = Some ''failed'' \<and>
   update_speaker_name w_failed_tracks ''j1'' (Some (Some ''SPEAKER_00'', Text ''Alice''))
     = (JsonSuccess,
        w_failed_tracks\<lparr>db_tracks := [(''j1'', ''SPEAKER_00'') \<mapsto> track0\<lparr>speaker_label := ''Alice''\<rparr>]\<rparr>) \<and>
   map_option job_status (db_jobs w_completed ''j1'') = Some ''completed'' \<and>
   db_tracks w_completed (''j1'', ''SPEAKER_07'') = None \<and>
   update_speaker_name w_completed ''j1'' (Some (Some ''SPEAKER_07'', Text ''Alice''))
     = (JsonFailure ''Failed to update speaker name'', w_completed)"
  by (simp add: update_speaker_name_def get_label_def update_speaker_label_def w_completed_def
      w_failed_tracks_def w0_def job0_def job_done_def speaker_id_errors_def
      speaker_label_errors_def run_validators_def strip_def is_space_def label_char_ok_def
      Let_def)

section \<open>Properties of the separation\<close>

lemma speaker_audio_acc:
  "list_all (\<lambda>seg. seg_start seg \<noteq> None \<and> seg_end seg \<noteq> None) segs \<Longrightarrow>
   speaker_audio a acc segs = Inr (acc @ concat (map (\<lambda>seg. span a seg @ silent 500) segs))"
  by (induction segs arbitrary: acc) (auto simp add: span_def)

text \<open>
  Claim C7, the part on the silence. For a speaker whose segments all carry a start and
  an end, the audio that \<^verbatim>\<open>separate_speakers\<close> builds is the concatenation, in order, of
  each span followed by 500 ms of silence: the silence also follows the last span, so
  there is one gap per span and not one per pair of neighbours.
\<close>

theorem speaker_audio_gap_after_every_span:
  assumes "list_all (\<lambda>seg. seg_start seg \<noteq> None \<and> seg_end seg \<noteq> None) segs"
  shows "speaker_audio a [] segs = Inr (concat (map (\<lambda>seg. span a seg @ silent 500) segs))"
  using speaker_audio_acc [OF assms, of a "[]"] by simp

text \<open>One speaker with one span of 2 ms: the file holds the span and then 500 ms of
  silence, though there is no second span to separate it from.\<close>

theorem speaker_audio_gap_after_every_span_witness:
  "speaker_audio [3, 1, 4, 1, 5] [] (get_segments one_segment) = Inr ([1, 4] @ silent 500) \<and>
   (case separate_speakers env0 w_converted ''tmp/j1_converted.wav'' one_segment ''j1'' of
      Raise e w' \<Rightarrow> False
    | Return files w' \<Rightarrow>
        files = [''out/j1/SPEAKER_00.wav''] \<and>
        fs w' ''out/j1/SPEAKER_00.wav'' = Some ([1, 4] @ silent 500))"
proof -
  have segs: "list_all (\<lambda>seg. seg_start seg \<noteq> None \<and> seg_end seg \<noteq> None) (get_segments one_segment)"
    by (simp add: one_segment_def get_segments_def del: not_None_eq)
  have sp: "concat (map (\<lambda>seg. span [3, 1, 4, 1, 5] seg @ silent 500) (get_segments one_segment)) = [1, 4] @ silent 500"
    by (simp add: one_segment_def get_segments_def span_def audio_slice_def py_int_def)
  have one: "speaker_audio [3, 1, 4, 1, 5] [] (get_segments one_segment) = Inr ([1, 4] @ silent 500)"
    using speaker_audio_gap_after_every_span [OF segs, of "[3, 1, 4, 1, 5]"] sp by simp
  have grp: "group_by_speaker (get_segments one_segment) = [(''SPEAKER_00'', get_segments one_segment)]"
    by (simp add: group_by_speaker_def add_segment_def get_speaker_def one_segment_def get_segments_def)
  have "\<not> check_job_cancelled w_converted ''j1''"
    by (simp add: w_converted_def w0_def check_job_cancelled_def)
  then show ?thesis
    using one by (simp add: separate_speakers_def grp w_converted_def w0_def env0_def
        update_job_status_def update_job_status_try_def set_job_fields_def Let_def check_job_cancelled_def)
qed

section \<open>Properties of the executor\<close>

text \<open>
  Claim C2, cancellation before the first stage. When the flag of a job is set as the
  executor starts, \<^verbatim>\<open>convert_to_wav\<close> raises, the handler of the executor writes
  \<open>failed\<close> with step \<open>error\<close> and the message
  \<^verbatim>\<open>Processing failed: Job cancelled by user\<close>, no file and no track is created, and the
  executor returns. The step is \<open>error\<close>, not \<open>cancelled\<close>.
\<close>

theorem cancelled_before_converting_ends_with_error:
  assumes "check_job_cancelled w job_id" and "db_jobs w job_id = Some job"
  shows "db_jobs (run_separation_pipeline env w job_id) job_id =
           Some (job\<lparr>job_status := ''failed'', current_step := ''error'',
                      progress_percentage := 0,
                      completed_at := Some (clock w),
                      error_message := Some ''Job cancelled by user''\<rparr>) \<and>
         map_of (job_statuses (run_separation_pipeline env w job_id)) job_id =
           Some \<lparr>status = ''failed'', step = ''error'', progress = 0,
                 message = ''Processing failed: Job cancelled by user''\<rparr> \<and>
         fs (run_separation_pipeline env w job_id) = fs w \<and>
         db_tracks (run_separation_pipeline env w job_id) = db_tracks w"
proof -
  have skip: "update_job_status w job_id ''processing'' ''initializing'' 5
                ''Starting audio processing pipeline...'' = w"
    using assms(1) by (simp add: update_job_status_def update_job_status_try_def set_job_fields_def)
  have raise: "run_separation_pipeline_try env w job_id =
      Raise (Exception ''Job cancelled by user'') w"
    using assms by (simp add: run_separation_pipeline_try_def skip convert_to_wav_def)
  show ?thesis
    using assms(2)
    by (simp add: run_separation_pipeline_def raise update_job_status_def
        update_job_status_try_def set_job_fields_def Let_def update_conv')
qed

text \<open>Scenario B: \<open>cancel_job\<close> leaves the row at step \<open>cancelled\<close>; the executor,
  started afterwards, overwrites the step with \<open>error\<close>.\<close>

theorem cancelled_before_converting_ends_with_error_witness:
  "check_job_cancelled (snd (cancel_job w0 ''j1'')) ''j1'' \<and>
   db_jobs (snd (cancel_job w0 ''j1'')) ''j1'' =
     Some (job0\<lparr>job_status := ''failed'', current_step := ''cancelled'',
                 error_message := Some ''Job cancelled by user'', completed_at := Some 100\<rparr>) \<and>
   db_jobs (run_separation_pipeline env0 (snd (cancel_job w0 ''j1'')) ''j1'') ''j1'' =
     Some (job0\<lparr>job_status := ''failed'', current_step := ''error'',
                 error_message := Some ''Job cancelled by user'', completed_at := Some 100\<rparr>) \<and>
   map_of (job_statuses (run_separation_pipeline env0 (snd (cancel_job w0 ''j1'')) ''j1'')) ''j1'' =
     Some \<lparr>status = ''failed'', step = ''error'', progress = 0,
               message = ''Processing failed: Job cancelled by user''\<rparr> \<and>
   fs (run_separation_pipeline env0 (snd (cancel_job w0 ''j1'')) ''j1'') = fs w0"
proof -
  let ?w = "snd (cancel_job w0 ''j1'')"
  have c: "check_job_cancelled ?w ''j1''"
    by (simp add: cancel_job_def Let_def check_job_cancelled_def)
  have d: "db_jobs ?w ''j1'' =
     Some (job0\<lparr>job_status := ''failed'', current_step := ''cancelled'',
                 error_message := Some ''Job cancelled by user'', completed_at := Some 100\<rparr>)"
    by (simp add: cancel_job_def update_job_status_def update_job_status_try_def set_job_fields_def
        check_job_cancelled_def w0_def job0_def Let_def)
  have e: "fs ?w = fs w0" "clock ?w = 100"
    by (simp_all add: cancel_job_def update_job_status_def update_job_status_try_def set_job_fields_def
        check_job_cancelled_def w0_def Let_def)
  show ?thesis
    using cancelled_before_converting_ends_with_error [OF c d, of env0] c d e
    by (simp add: job0_def)
qed

section \<open>Properties of a run without the engine\<close>

lemma upd_tracks [simp]: "db_tracks (update_job_status w j st stp p m) = db_tracks w"
  by (simp add: update_job_status_def update_job_status_try_def set_job_fields_def Let_def split: option.splits)

lemma upd_db_none [simp]:
  "(db_jobs (update_job_status w j st stp p m) j = None) = (db_jobs w j = None)"
  by (simp add: update_job_status_def update_job_status_try_def set_job_fields_def Let_def split: option.splits)

lemma upd_speaker_count [simp]:
  "map_option speaker_count (db_jobs (update_job_status w j st stp p m) j) =
   map_option speaker_count (db_jobs w j)"
  by (simp add: update_job_status_def update_job_status_try_def set_job_fields_def Let_def split: option.splits)

lemma quiet_refl [simp]: "quiet j w w"
  by (simp add: quiet_def)

lemma quiet_upd [simp]:
  "quiet j w (update_job_status w1 j st stp p m) = quiet j w w1"
  by (simp add: quiet_def)

lemma quiet_upd_left [simp]:
  "quiet j (update_job_status w j st stp p m) w' = quiet j w w'"
  by (simp add: quiet_def)

lemma quiet_cancelled: "quiet j w w' \<Longrightarrow> check_job_cancelled w' j = check_job_cancelled w j"
  by (simp add: quiet_def check_job_cancelled_def)

lemma status_only_refl [simp]: "status_only j w w"
  by (simp add: status_only_def)

lemma status_only_upd [simp]:
  "status_only j w (update_job_status w1 j st stp p m) = status_only j w w1"
  by (simp add: status_only_def)

lemma fold_status_only:
  "(\<And>x w1. status_only j w (f x w1) = status_only j w w1) \<Longrightarrow>
   status_only j w (fold f xs w1) = status_only j w w1"
  by (induction xs arbitrary: w1) simp_all

lemma mock_ok:
  "\<exists>w'. run_mock_whisperx w1 j = Return mock_result w' \<and> status_only j w w' = status_only j w w1"
  unfolding run_mock_whisperx_def Let_def
  by (simp add: fold_status_only)

lemma whisperx_try_frame:
  "case run_whisperx_transcription_try env w p j of
     Raise e w' \<Rightarrow> status_only j w w'
   | Return r w' \<Rightarrow> status_only j w w' \<and> (\<not> import_ok env \<longrightarrow> r = mock_result)"
proof (cases "import_ok env")
  case False
  then show ?thesis
    using mock_ok [of "update_job_status w j ''processing'' ''transcribing'' 30
                   ''Transcribing audio and identifying speakers...''" j w]
    by (auto simp add: run_whisperx_transcription_try_def Let_def)
next
  case True
  then show ?thesis
    unfolding run_whisperx_transcription_try_def Let_def
    by (simp split: option.splits diarize_outcome.splits)
qed

lemma whisperx_try_down:
  "engine_down env \<Longrightarrow> import_ok env \<Longrightarrow>
   \<exists>e w'. run_whisperx_transcription_try env w p j = Raise e w'"
  unfolding run_whisperx_transcription_try_def Let_def engine_down_def
  by (auto split: option.splits)

lemma whisperx_down:
  assumes "engine_down env"
  shows "\<exists>w'. run_whisperx_transcription env w p j = Return mock_result w' \<and> status_only j w w'"
proof (cases "run_whisperx_transcription_try env w p j")
  case (Raise e w1)
  then have "status_only j w w1"
    using whisperx_try_frame [where env=env and w=w and p=p and j=j] by simp
  then show ?thesis
    using mock_ok [of w1 j w] Raise by (auto simp add: run_whisperx_transcription_def)
next
  case (Return r w1)
  then have "import_ok env \<Longrightarrow> False"
    using whisperx_try_down [OF assms, of w p j] by auto
  then show ?thesis
    using whisperx_try_frame [where env=env and w=w and p=p and j=j] Return
    by (auto simp add: run_whisperx_transcription_def)
qed


lemma cancelled_frame [simp]:
  "check_job_cancelled (w\<lparr>fs := f\<rparr>) j = check_job_cancelled w j"
  "check_job_cancelled (w\<lparr>db_jobs := d\<rparr>) j = check_job_cancelled w j"
  "check_job_cancelled (w\<lparr>db_tracks := t\<rparr>) j = check_job_cancelled w j"
  by (simp_all add: check_job_cancelled_def)

lemma quiet_fs [simp]: "quiet j w (w1\<lparr>fs := f\<rparr>) = quiet j w w1"
  by (simp add: quiet_def)

lemma quiet_of_status_only: "status_only j w w' \<Longrightarrow> quiet j w w'"
  by (simp add: status_only_def)

lemma convert_ok:
  assumes "\<not> check_job_cancelled w j" and "fs w p = Some a" and "from_file_ok env"
  shows "\<exists>w'. convert_to_wav env w p j = Return (temp_dir env @ ''/'' @ j @ ''_converted.wav'') w' \<and>
           quiet j w w' \<and> db_tracks w' = db_tracks w \<and>
           fs w' (temp_dir env @ ''/'' @ j @ ''_converted.wav'') = Some a"
  using assms by (simp add: convert_to_wav_def load_audio_def Let_def)

lemma mock_groups:
  "group_by_speaker (get_segments mock_result) =
     [(''SPEAKER_00'', [get_segments mock_result ! 0, get_segments mock_result ! 2,
                       get_segments mock_result ! 4]),
      (''SPEAKER_01'', [get_segments mock_result ! 1, get_segments mock_result ! 3,
                       get_segments mock_result ! 5])]"
  by (simp add: group_by_speaker_def add_segment_def get_speaker_def mock_result_def
      get_segments_def Let_def)

lemma quiet_trans: "quiet j w w1 \<Longrightarrow> quiet j w1 w2 \<Longrightarrow> quiet j w w2"
  by (simp add: quiet_def)

lemma separate_loop_ok:
  assumes "\<not> check_job_cancelled w j"
    and "list_all (\<lambda>(k, segs). list_all (\<lambda>seg. seg_start seg \<noteq> None \<and> seg_end seg \<noteq> None) segs)
           groups"
  shows "\<exists>w'. separate_loop env w j a n idx groups files =
             Return (files @ map (\<lambda>(k, segs). output_dir env @ ''/'' @ j @ ''/'' @ k @ ''.wav'')
                              groups) w' \<and>
           quiet j w w' \<and> db_tracks w' = db_tracks w \<and>
           (\<forall>p. fs w p \<noteq> None \<longrightarrow> fs w' p \<noteq> None) \<and>
           list_all (\<lambda>(k, segs). fs w' (output_dir env @ ''/'' @ j @ ''/'' @ k @ ''.wav'') \<noteq> None)
             groups"
  using assms
proof (induction groups arbitrary: w idx files)
  case Nil
  then show ?case by simp
next
  case (Cons g groups)
  obtain k segs where g: "g = (k, segs)"
    by (cases g)
  let ?w1 = "update_job_status w j ''processing'' ''separating''
               (65 + (int idx * 20) div int n)
               (''Processing speaker '' @ str_nat (idx + 1) @ ''/'' @ str_nat n @ '': '' @ k)"
  let ?path = "output_dir env @ ''/'' @ j @ ''/'' @ k @ ''.wav''"
  let ?sa = "concat (map (\<lambda>seg. span a seg @ silent 500) segs)"
  let ?w2 = "?w1\<lparr>fs := (fs ?w1)(?path \<mapsto> ?sa)\<rparr>"
  have audio: "speaker_audio a [] segs = Inr ?sa"
    using Cons.prems(2) speaker_audio_acc [of segs a "[]"] by (simp add: g)
  have step: "separate_loop env w j a n idx (g # groups) files =
      separate_loop env ?w2 j a n (idx + 1) groups (files @ [?path])"
    using Cons.prems(1) by (simp add: g audio Let_def del: speaker_audio.simps)
  have live: "\<not> check_job_cancelled ?w2 j"
    using Cons.prems(1) by simp
  have rest: "list_all (\<lambda>(k, segs). list_all (\<lambda>seg. seg_start seg \<noteq> None \<and> seg_end seg \<noteq> None) segs)
           groups"
    using Cons.prems(2) by simp
  obtain w' where w':
    "separate_loop env ?w2 j a n (idx + 1) groups (files @ [?path]) =
       Return ((files @ [?path]) @
               map (\<lambda>(k, segs). output_dir env @ ''/'' @ j @ ''/'' @ k @ ''.wav'') groups) w'"
    "quiet j ?w2 w'" "db_tracks w' = db_tracks ?w2"
    "\<forall>p. fs ?w2 p \<noteq> None \<longrightarrow> fs w' p \<noteq> None"
    "list_all (\<lambda>(k, segs). fs w' (output_dir env @ ''/'' @ j @ ''/'' @ k @ ''.wav'') \<noteq> None) groups"
    using Cons.IH [OF live rest, of "idx + 1" "files @ [?path]"] by blast
  have "quiet j w ?w2"
    by simp
  then have q: "quiet j w w'"
    using w'(2) by (rule quiet_trans)
  have keep: "\<forall>p. fs w p \<noteq> None \<longrightarrow> fs w' p \<noteq> None"
    using w'(4) by simp
  have here: "fs w' ?path \<noteq> None"
    using w'(4) by simp
  show ?case
    unfolding step
    using w'(1,3,5) q keep here by (simp add: g del: not_None_eq)
qed

lemma mock_groups_timed:
  "list_all (\<lambda>(k, segs). list_all (\<lambda>seg. seg_start seg \<noteq> None \<and> seg_end seg \<noteq> None) segs)
     (group_by_speaker (get_segments mock_result))"
  unfolding mock_groups
  by (simp add: mock_result_def get_segments_def del: not_None_eq)

lemma separate_mock_ok:
  assumes "\<not> check_job_cancelled w j" and "fs w wav = Some a"
  shows "\<exists>w'. separate_speakers env w wav mock_result j =
             Return [output_dir env @ ''/'' @ j @ ''/SPEAKER_00.wav'',
                     output_dir env @ ''/'' @ j @ ''/SPEAKER_01.wav''] w' \<and>
           quiet j w w' \<and> db_tracks w' = db_tracks w \<and>
           fs w' (output_dir env @ ''/'' @ j @ ''/SPEAKER_00.wav'') \<noteq> None \<and>
           fs w' (output_dir env @ ''/'' @ j @ ''/SPEAKER_01.wav'') \<noteq> None"
proof -
  let ?w1 = "update_job_status w j ''processing'' ''separating'' 60
               ''Separating speakers into individual tracks...''"
  have live: "\<not> check_job_cancelled ?w1 j"
    using assms(1) by simp
  obtain w' where w':
    "separate_loop env ?w1 j a (length (group_by_speaker (get_segments mock_result))) 0
       (group_by_speaker (get_segments mock_result)) [] =
     Return ([] @ map (\<lambda>(k, segs). output_dir env @ ''/'' @ j @ ''/'' @ k @ ''.wav'')
                     (group_by_speaker (get_segments mock_result))) w'"
    "quiet j ?w1 w'" "db_tracks w' = db_tracks ?w1"
    "list_all (\<lambda>(k, segs). fs w' (output_dir env @ ''/'' @ j @ ''/'' @ k @ ''.wav'') \<noteq> None)
       (group_by_speaker (get_segments mock_result))"
    using separate_loop_ok [OF live mock_groups_timed] by blast
  have q: "quiet j w w'"
    using quiet_trans [OF _ w'(2), of w] by simp
  have run: "separate_speakers env w wav mock_result j =
      separate_loop env ?w1 j a (length (group_by_speaker (get_segments mock_result))) 0
       (group_by_speaker (get_segments mock_result)) []"
    using assms by (simp add: separate_speakers_def Let_def)
  show ?thesis
    unfolding run
    using w'(1,3,4) q by (simp add: mock_groups del: not_None_eq)
qed


lemma path_name_append:
  assumes "CHR ''/'' \<notin> set name"
  shows "path_name (d @ CHR ''/'' # name) = name"
proof -
  have "takeWhile (\<lambda>c. c \<noteq> CHR ''/'') (rev name @ CHR ''/'' # rev d) =
        rev name @ takeWhile (\<lambda>c. c \<noteq> CHR ''/'') (CHR ''/'' # rev d)"
    by (rule takeWhile_append2) (use assms in auto)
  then show ?thesis
    by (simp add: path_name_def)
qed

lemma speaker_file_stem:
  "path_stem (d @ CHR ''/'' # j @ ''/SPEAKER_00.wav'') = ''SPEAKER_00''"
  "path_stem (d @ CHR ''/'' # j @ ''/SPEAKER_01.wav'') = ''SPEAKER_01''"
proof -
  have "path_name ((d @ CHR ''/'' # j) @ CHR ''/'' # ''SPEAKER_00.wav'') = ''SPEAKER_00.wav''"
    by (rule path_name_append) simp
  then show "path_stem (d @ CHR ''/'' # j @ ''/SPEAKER_00.wav'') = ''SPEAKER_00''"
    by (simp add: path_stem_def)
  have "path_name ((d @ CHR ''/'' # j) @ CHR ''/'' # ''SPEAKER_01.wav'') = ''SPEAKER_01.wav''"
    by (rule path_name_append) simp
  then show "path_stem (d @ CHR ''/'' # j @ ''/SPEAKER_01.wav'') = ''SPEAKER_01''"
    by (simp add: path_stem_def)
qed

lemma upd_db:
  "db_jobs (update_job_status w j st stp p m) j =
     (if check_job_cancelled w j \<and> st \<noteq> ''failed'' \<and> st \<noteq> ''cancelled'' then db_jobs w j
      else map_option (\<lambda>job. set_job_fields job st stp p (clock w)) (db_jobs w j))"
  by (simp add: update_job_status_def update_job_status_try_def Let_def split: option.splits)

lemma set_job_fields_simps [simp]:
  "job_status (set_job_fields job st stp p now) = st"
  "speaker_count (set_job_fields job st stp p now) = speaker_count job"
  "uploaded_file_path (set_job_fields job st stp p now) = uploaded_file_path job"
  by (simp_all add: set_job_fields_def Let_def)

lemma finalize_mock_ok:
  assumes live: "\<not> check_job_cancelled w j"
    and row: "db_jobs w j = Some job"
    and files: "fs w (d @ ''/'' @ j @ ''/SPEAKER_00.wav'') = Some a0"
      "fs w (d @ ''/'' @ j @ ''/SPEAKER_01.wav'') = Some a1"
    and fresh: "\<forall>sid. db_tracks w (j, sid) = None"
  shows "\<exists>w' job'. finalize_processing w j
                 [d @ ''/'' @ j @ ''/SPEAKER_00.wav'', d @ ''/'' @ j @ ''/SPEAKER_01.wav'']
                 mock_result = Return () w' \<and>
           db_jobs w' j = Some job' \<and> job_status job' = ''completed'' \<and>
           speaker_count job' = Some 2"
  using assms
  by (simp add: finalize_processing_def speaker_file_stem create_track_def upd_db Let_def)


text \<open>
  Claim C6. When the engine is down, \<open>run_whisperx_transcription\<close> returns the fixed
  result of \<open>run_mock_whisperx\<close> from every state: six segments whose speakers alternate
  between \<open>SPEAKER_00\<close> and \<open>SPEAKER_01\<close>. A run of the executor on such an engine, for
  a job that has a row, is not cancelled, has no tracks yet and whose upload exists and
  decodes, ends with the row \<open>completed\<close> and a speaker count of 2.
\<close>

theorem engine_down_run_completes:
  assumes row: "db_jobs w job_id = Some job"
    and live: "\<not> check_job_cancelled w job_id"
    and upload: "fs w (uploaded_file_path job) = Some a"
    and decodes: "from_file_ok env"
    and down: "engine_down env"
    and fresh: "\<forall>sid. db_tracks w (job_id, sid) = None"
  shows "(\<exists>w'. run_whisperx_transcription env w1 p job_id = Return mock_result w') \<and>
         map get_speaker (get_segments mock_result) =
           [''SPEAKER_00'', ''SPEAKER_01'', ''SPEAKER_00'', ''SPEAKER_01'', ''SPEAKER_00'',
            ''SPEAKER_01''] \<and>
         (\<exists>job'. db_jobs (run_separation_pipeline env w job_id) job_id = Some job' \<and>
            job_status job' = ''completed'' \<and> speaker_count job' = Some 2)"
proof -
  let ?wav = "temp_dir env @ ''/'' @ job_id @ ''_converted.wav''"
  let ?f0 = "output_dir env @ ''/'' @ job_id @ ''/SPEAKER_00.wav''"
  let ?f1 = "output_dir env @ ''/'' @ job_id @ ''/SPEAKER_01.wav''"
  let ?w1 = "update_job_status w job_id ''processing'' ''initializing'' 5
               ''Starting audio processing pipeline...''"
  have mock: "\<exists>w'. run_whisperx_transcription env w1 p job_id = Return mock_result w'"
    using whisperx_down [OF down, of w1 p job_id] by blast
  have speakers: "map get_speaker (get_segments mock_result) =
      [''SPEAKER_00'', ''SPEAKER_01'', ''SPEAKER_00'', ''SPEAKER_01'', ''SPEAKER_00'',
       ''SPEAKER_01'']"
    by (simp add: mock_result_def get_segments_def get_speaker_def)
  have q1: "quiet job_id w ?w1" and live1: "\<not> check_job_cancelled ?w1 job_id"
    and up1: "fs ?w1 (uploaded_file_path job) = Some a"
    and tr1: "db_tracks ?w1 = db_tracks w"
    using live upload by simp_all
  obtain w2 where w2: "convert_to_wav env ?w1 (uploaded_file_path job) job_id = Return ?wav w2"
    "quiet job_id ?w1 w2" "db_tracks w2 = db_tracks ?w1" "fs w2 ?wav = Some a"
    using convert_ok [OF live1 up1 decodes] by blast
  obtain w3 where w3: "run_whisperx_transcription env w2 ?wav job_id = Return mock_result w3"
    "status_only job_id w2 w3"
    using whisperx_down [OF down, of w2 ?wav job_id] by blast
  have q3: "quiet job_id w w3"
    using w2(2) w3(2) by (auto simp add: status_only_def intro: quiet_trans)
  have live3: "\<not> check_job_cancelled w3 job_id"
    using quiet_cancelled [OF q3] live by simp
  have wav3: "fs w3 ?wav = Some a"
    using w3(2) w2(4) by (simp add: status_only_def)
  obtain w4 where w4: "separate_speakers env w3 ?wav mock_result job_id = Return [?f0, ?f1] w4"
    "quiet job_id w3 w4" "db_tracks w4 = db_tracks w3" "fs w4 ?f0 \<noteq> None" "fs w4 ?f1 \<noteq> None"
    using separate_mock_ok [OF live3 wav3, of env] by blast
  have q4: "quiet job_id w w4"
    using q3 w4(2) by (rule quiet_trans)
  have live4: "\<not> check_job_cancelled w4 job_id"
    using quiet_cancelled [OF q4] live by simp
  obtain job4 where job4: "db_jobs w4 job_id = Some job4"
    using q4 row by (cases "db_jobs w4 job_id") (simp_all add: quiet_def)
  obtain a0 a1 where files: "fs w4 ?f0 = Some a0" "fs w4 ?f1 = Some a1"
    using w4(4,5) by auto
  have fresh4: "\<forall>sid. db_tracks w4 (job_id, sid) = None"
    using fresh w4(3) w3(2) w2(3) tr1 by (simp add: status_only_def)
  obtain w5 job' where w5: "finalize_processing w4 job_id [?f0, ?f1] mock_result = Return () w5"
    "db_jobs w5 job_id = Some job'" "job_status job' = ''completed''" "speaker_count job' = Some 2"
    using finalize_mock_ok [OF live4 job4 files fresh4] by blast
  have "run_separation_pipeline env w job_id = w5\<lparr>fs := (fs w5)(?wav := None)\<rparr>"
    using row w2(1) w3(1) w4(1) w5(1)
    by (simp add: run_separation_pipeline_def run_separation_pipeline_try_def Let_def)
  then have "\<exists>job'. db_jobs (run_separation_pipeline env w job_id) job_id = Some job' \<and>
            job_status job' = ''completed'' \<and> speaker_count job' = Some 2"
    using w5(2-4) by simp
  with mock speakers show ?thesis
    by blast
qed


text \<open>Scenario A on the uploaded job \<open>j1\<close>, with WhisperX not importable.\<close>

theorem engine_down_run_completes_witness:
  "engine_down env0 \<and> \<not> check_job_cancelled w0 ''j1'' \<and>
   (\<exists>w'. run_whisperx_transcription env0 w0 ''tmp/j1_converted.wav'' ''j1'' =
           Return mock_result w') \<and>
   length (get_segments mock_result) = 6 \<and>
   (\<exists>job'. db_jobs (run_separation_pipeline env0 w0 ''j1'') ''j1'' = Some job' \<and>
      job_status job' = ''completed'' \<and> speaker_count job' = Some 2)"
proof -
  have row: "db_jobs w0 ''j1'' = Some job0"
    by (simp add: w0_def)
  have live: "\<not> check_job_cancelled w0 ''j1''"
    by (simp add: w0_def check_job_cancelled_def)
  have upload: "fs w0 (uploaded_file_path job0) = Some [3, 1, 4, 1, 5]"
    by (simp add: w0_def job0_def)
  have decodes: "from_file_ok env0" and down: "engine_down env0"
    by (simp_all add: env0_def engine_down_def)
  have fresh: "\<forall>sid. db_tracks w0 (''j1'', sid) = None"
    by (simp add: w0_def)
  have six: "length (get_segments mock_result) = 6"
    by (simp add: mock_result_def get_segments_def)
  show ?thesis
    using engine_down_run_completes [OF row live upload decodes down fresh,
        of w0 "''tmp/j1_converted.wav''"] live down six
    by simp
qed

end
